theory Spec2Isabelle
  imports Main
begin

section \<open>Python values used by the generation client\<close>

text \<open>
  The module \<^verbatim>\<open>utils/llm.py\<close> works on optional strings, on a dictionary with four
  fixed keys and on exceptions. A Python \<^verbatim>\<open>str\<close> is modelled as a \<open>string\<close> whose
  characters stand for code points below 256; \<^verbatim>\<open>None\<close> is \<open>None\<close>.

  An exception is its class name, the text of \<^verbatim>\<open>str(e)\<close>, and the exception that was
  being handled when it was raised (Python's implicit \<^verbatim>\<open>__context__\<close>). Only
  subclasses of \<^verbatim>\<open>Exception\<close> are modelled: they are what \<^verbatim>\<open>except Exception\<close>
  catches.
\<close>

datatype pyexn = PyExn (exn_class: string) (exn_str: string) (exn_context: "pyexn option")

text \<open>Truthiness of an optional string: \<^verbatim>\<open>None\<close> and \<^verbatim>\<open>""\<close> are falsy.\<close>

fun truthy :: "string option \<Rightarrow> bool" where
  "truthy None = False"
| "truthy (Some s) = (s \<noteq> [])"

text \<open>\<^verbatim>\<open>a or b\<close> on optional strings.\<close>

definition py_or :: "string option \<Rightarrow> string option \<Rightarrow> string option" where
  "py_or a b = (if truthy a then a else b)"

text \<open>\<^verbatim>\<open>sep.join(xs)\<close>.\<close>

fun join :: "string \<Rightarrow> string list \<Rightarrow> string" where
  "join sep [] = []"
| "join sep [x] = x"
| "join sep (x # y # ys) = x @ sep @ join sep (y # ys)"

text \<open>\<^verbatim>\<open>needle in haystack\<close> on strings.\<close>

fun starts_with :: "string \<Rightarrow> string \<Rightarrow> bool" where
  "starts_with [] ys = True"
| "starts_with (x # xs) [] = False"
| "starts_with (x # xs) (y # ys) = (x = y \<and> starts_with xs ys)"

fun str_contains :: "string \<Rightarrow> string \<Rightarrow> bool" where
  "str_contains needle [] = (needle = [])"
| "str_contains needle (c # cs) = (starts_with needle (c # cs) \<or> str_contains needle cs)"

text \<open>
  \<^verbatim>\<open>s.strip()\<close> removes leading and trailing whitespace. The whitespace code points
  below 256 are 9 to 13, 28 to 32, 133 and 160.
\<close>

definition is_space :: "char \<Rightarrow> bool" where
  "is_space c = (let n = (of_char c :: nat)
                 in (9 \<le> n \<and> n \<le> 13) \<or> (28 \<le> n \<and> n \<le> 32) \<or> n = 133 \<or> n = 160)"

definition strip :: "string \<Rightarrow> string" where
  "strip s = rev (dropWhile is_space (rev (dropWhile is_space s)))"

section \<open>The environment and the secret store\<close>

text \<open>
  \<^verbatim>\<open>config.env.env\<close> is used through \<^verbatim>\<open>env.get(name)\<close> and
  \<^verbatim>\<open>env.get(name, default)\<close> only: a dictionary from variable names to strings.
\<close>

type_synonym environ = "string \<rightharpoonup> string"

definition env_get_default :: "environ \<Rightarrow> string \<Rightarrow> string \<Rightarrow> string option" where
  "env_get_default e k d = (case e k of None \<Rightarrow> Some d | Some v \<Rightarrow> Some v)"

text \<open>
  A secret client answers \<^verbatim>\<open>get_secret(name).value\<close> with an exception or with the
  secret's value, which the library types as an optional string. Opening a session
  (\<^verbatim>\<open>DefaultAzureCredential()\<close> followed by \<^verbatim>\<open>SecretClient(vault_url=..., credential=...)\<close>)
  raises or yields such a client.
\<close>

type_synonym secret_client = "string \<Rightarrow> pyexn + string option"

text \<open>
  The connection handle \<^verbatim>\<open>AzureOpenAI(azure_endpoint=..., api_key=..., api_version=...)\<close>
  is the record of its three arguments. The constructor is called with a non-empty
  endpoint and key and with a version on every path that reaches it, and contacts
  nothing; it is taken not to raise.
\<close>

record connection =
  azure_endpoint :: "string option"
  conn_api_key :: "string option"
  api_version :: "string option"

text \<open>
  The request of \<^verbatim>\<open>client.chat.completions.create\<close>; the sampling parameters are the
  literals of the source. The response is the list of its choices, each the optional
  \<^verbatim>\<open>message.content\<close>.
\<close>

record chat_request =
  req_model :: "string option"
  req_temperature :: string
  req_max_tokens :: int
  req_top_p :: string
  req_frequency_penalty :: string
  req_messages :: "(string \<times> string) list"

type_synonym chat_response = "string option list"

text \<open>
  Everything outside the process: the environment, the secret store, the chat API and
  the tokenizer registry (\<^verbatim>\<open>tiktoken.encoding_for_model(model)\<close> raises or yields an
  encoding, whose \<^verbatim>\<open>encode(text)\<close> raises or yields the tokens).
\<close>

record external =
  env :: environ
  open_session :: "string \<Rightarrow> pyexn + secret_client"
  chat_create :: "connection \<Rightarrow> chat_request \<Rightarrow> pyexn + chat_response"
  encoding_for_model :: "string \<Rightarrow> pyexn + (string \<Rightarrow> pyexn + nat list)"

text \<open>
  The calls that leave the process, in the order they are made. Calls of the logger
  change nothing that the functions return or store, and are left out.
\<close>

datatype call = OpenSession string | GetSecret string | ChatCompletion

section \<open>Token accounting\<close>

text \<open>\<^verbatim>\<open>count_tokens(text, model)\<close>, lines 10 to 17.\<close>

definition count_tokens :: "external \<Rightarrow> string \<Rightarrow> string \<Rightarrow> int" where
  "count_tokens x text model =
     (case encoding_for_model x model of
        Inl e \<Rightarrow> int (length text) div 4
      | Inr encode \<Rightarrow>
          (case encode text of
             Inl e \<Rightarrow> int (length text) div 4
           | Inr tokens \<Rightarrow> int (length tokens)))"

definition default_model :: string where
  "default_model = ''gpt-3.5-turbo''"

section \<open>The client instance\<close>

text \<open>
  The configuration dictionary has the keys \<^verbatim>\<open>api_key\<close>, \<^verbatim>\<open>api_base\<close>,
  \<^verbatim>\<open>model_version\<close> and \<^verbatim>\<open>deployment\<close>, every one of them set on every path.
\<close>

record config =
  api_key :: "string option"
  api_base :: "string option"
  model_version :: "string option"
  deployment :: "string option"

text \<open>\<^verbatim>\<open>config.get(k)\<close>.\<close>

definition config_get :: "config \<Rightarrow> string \<Rightarrow> string option" where
  "config_get c k =
     (if k = ''api_key'' then api_key c
      else if k = ''api_base'' then api_base c
      else if k = ''model_version'' then model_version c
      else if k = ''deployment'' then deployment c
      else None)"

text \<open>
  The instance attributes \<^verbatim>\<open>key_vault_url\<close>, \<^verbatim>\<open>_config\<close> and \<^verbatim>\<open>_client\<close>, together
  with the history of outside calls made through the instance.
\<close>

record client_state =
  key_vault_url :: "string option"
  self_config :: "config option"
  self_client :: "connection option"
  calls :: "call list"

definition default_key_vault_url :: string where
  "default_key_vault_url = ''https://KV-fs-to-autogen.vault.azure.net/''"

text \<open>\<^verbatim>\<open>AzureOpenAIClient.__init__\<close>, lines 20 to 23.\<close>

definition init :: "environ \<Rightarrow> client_state" where
  "init e = \<lparr> key_vault_url = py_or (e ''KEY_VAULT_URL'') (Some default_key_vault_url),
              self_config = None, self_client = None, calls = [] \<rparr>"

section \<open>Resolving the configuration\<close>

text \<open>The dictionary built from the environment alone, lines 31 to 36 and again 81 to 86.\<close>

definition env_config :: "environ \<Rightarrow> config" where
  "env_config e =
     \<lparr> api_key = e ''AZURE_OPENAI_API_KEY'',
       api_base = e ''AZURE_OPENAI_ENDPOINT'',
       model_version = env_get_default e ''AZURE_OPENAI_API_VERSION'' ''2024-02-01'',
       deployment = e ''AZURE_OPENAI_DEPLOYMENT'' \<rparr>"

text \<open>
  One guarded fetch, as in lines 42 to 46: the secret's value, or \<^verbatim>\<open>None\<close> when the
  fetch raises.
\<close>

definition try_get_secret :: "secret_client \<Rightarrow> string \<Rightarrow> string option" where
  "try_get_secret client name = (case client name of Inl e \<Rightarrow> None | Inr v \<Rightarrow> v)"

text \<open>Lines 41 to 66: the four fetches, then the back-fill from the environment.\<close>

definition vault_config :: "environ \<Rightarrow> secret_client \<Rightarrow> config" where
  "vault_config e client =
     (let k = try_get_secret client ''AzureLLMKey'';
          b = try_get_secret client ''AzureOpenAiBase'';
          v = try_get_secret client ''AzureOpenAiVersion'';
          d = try_get_secret client ''AzureOpenAiDeployment''
      in \<lparr> api_key = py_or k (e ''AZURE_OPENAI_API_KEY''),
           api_base = py_or b (e ''AZURE_OPENAI_ENDPOINT''),
           model_version = py_or v (env_get_default e ''AZURE_OPENAI_API_VERSION'' ''2024-02-01''),
           deployment = py_or d (e ''AZURE_OPENAI_DEPLOYMENT'') \<rparr>)"

definition vault_calls :: "string \<Rightarrow> call list" where
  "vault_calls url =
     [OpenSession url, GetSecret ''AzureLLMKey'', GetSecret ''AzureOpenAiBase'',
      GetSecret ''AzureOpenAiVersion'', GetSecret ''AzureOpenAiDeployment'']"

text \<open>
  \<^verbatim>\<open>_load_config_from_vault\<close>, lines 25 to 87. The location is falsy when it is
  \<^verbatim>\<open>None\<close> or empty. The outer handler of lines 79 to 86 catches a failure to open the
  session; each fetch has its own handler, and nothing else in the block raises.
\<close>

definition load_config_from_vault ::
  "external \<Rightarrow> client_state \<Rightarrow> (pyexn + config) \<times> client_state" where
  "load_config_from_vault x s =
     (case self_config s of
        Some cfg \<Rightarrow> (Inr cfg, s)
      | None \<Rightarrow>
          (let kv_url = py_or (env x ''KEY_VAULT_URL'') (key_vault_url s);
               from_env = (let cfg = env_config (env x)
                           in (Inr cfg, s\<lparr>self_config := Some cfg\<rparr>))
           in case kv_url of
                None \<Rightarrow> from_env
              | Some url \<Rightarrow>
                  if url = [] then from_env
                  else (case open_session x url of
                          Inl e \<Rightarrow>
                            (let cfg = env_config (env x)
                             in (Inr cfg, s\<lparr>self_config := Some cfg,
                                             calls := calls s @ [OpenSession url]\<rparr>))
                        | Inr client \<Rightarrow>
                            (let cfg = vault_config (env x) client
                             in (Inr cfg, s\<lparr>self_config := Some cfg,
                                             calls := calls s @ vault_calls url\<rparr>)))))"

section \<open>Obtaining the connection\<close>

definition ValueError :: "string \<Rightarrow> pyexn" where
  "ValueError msg = PyExn ''ValueError'' msg None"

text \<open>The message of lines 96 to 100, for the list of missing keys.\<close>

definition missing_config_message :: "string list \<Rightarrow> string" where
  "missing_config_message missing =
     ''Missing required Azure OpenAI config: '' @ join '', '' missing @
     ''. Provide these via environment variables (AZURE_OPENAI_API_KEY, AZURE_OPENAI_ENDPOINT, AZURE_OPENAI_DEPLOYMENT) '' @
     ''or configure them in Azure Key Vault and set KEY_VAULT_URL.''"

definition required_keys :: "string list" where
  "required_keys = [''api_key'', ''api_base'', ''deployment'']"

definition AzureOpenAI :: "config \<Rightarrow> connection" where
  "AzureOpenAI c = \<lparr> azure_endpoint = api_base c, conn_api_key = api_key c,
                      api_version = model_version c \<rparr>"

text \<open>\<^verbatim>\<open>_get_client\<close>, lines 89 to 107.\<close>

definition get_client ::
  "external \<Rightarrow> client_state \<Rightarrow> (pyexn + connection) \<times> client_state" where
  "get_client x s =
     (case self_client s of
        Some c \<Rightarrow> (Inr c, s)
      | None \<Rightarrow>
          (case load_config_from_vault x s of
             (Inl e, s1) \<Rightarrow> (Inl e, s1)
           | (Inr c, s1) \<Rightarrow>
               (let missing = filter (\<lambda>k. \<not> truthy (config_get c k)) required_keys
                in if missing \<noteq> []
                   then (Inl (ValueError (missing_config_message missing)), s1)
                   else (Inr (AzureOpenAI c), s1\<lparr>self_client := Some (AzureOpenAI c)\<rparr>))))"

section \<open>Formatted string literals\<close>

text \<open>
  The system prompt of \<^verbatim>\<open>generate_content\<close> is written as a formatted string literal
  (\<^verbatim>\<open>f"""..."""\<close>), so its text is not taken as it stands: \<^verbatim>\<open>{{\<close> and \<^verbatim>\<open>}}\<close> give
  a brace, a single \<^verbatim>\<open>{\<close> opens a replacement field \<^verbatim>\<open>{expression:format-spec}\<close>, and a
  format spec may hold further fields. When the literal is evaluated, every field
  formats the value of its expression with its format spec, the fields nested in the
  spec being evaluated first.

  The only expressions in the fields of the source are double-quoted string literals;
  other expression forms are outside this model and are reported as
  \<^verbatim>\<open>NotImplementedError\<close>.
\<close>

definition SyntaxError :: "string \<Rightarrow> pyexn" where
  "SyntaxError msg = PyExn ''SyntaxError'' msg None"

definition is_digit :: "char \<Rightarrow> bool" where
  "is_digit c = (let n = (of_char c :: nat) in 48 \<le> n \<and> n \<le> 57)"

definition digits_value :: "string \<Rightarrow> nat" where
  "digits_value ds = foldl (\<lambda>n c. 10 * n + (of_char c - 48)) 0 ds"

text \<open>A field's expression: a string literal without escapes, in optional whitespace.\<close>

definition eval_literal :: "string \<Rightarrow> pyexn + string" where
  "eval_literal src =
     (case strip src of
        q # rest \<Rightarrow>
          (if q = CHR 0x22 \<and> rest \<noteq> [] \<and> last rest = CHR 0x22
              \<and> CHR 0x22 \<notin> set (butlast rest) \<and> CHR 0x5C \<notin> set (butlast rest)
           then Inr (butlast rest)
           else Inl (PyExn ''NotImplementedError'' ''expression outside the modelled fragment'' None))
      | [] \<Rightarrow> Inl (SyntaxError ''f-string: empty expression not allowed''))"

subsection \<open>Formatting a string\<close>

text \<open>
  \<^verbatim>\<open>format(value, spec)\<close> for a string value, after CPython's
  \<^verbatim>\<open>parse_internal_render_format_spec\<close> and \<^verbatim>\<open>format_string_internal\<close>. The spec is read
  as \<^verbatim>\<open>[[fill]align][sign][z][#][0][width][,][_][.precision][type]\<close>; options that a
  string does not take are read first and refused afterwards. The messages are those
  of \<^verbatim>\<open>str(e)\<close>. Widths and precisions are bounded by the largest
  \<^verbatim>\<open>Py_ssize_t\<close> of a 64-bit build.
\<close>

definition quote :: "string \<Rightarrow> string" where
  "quote s = [CHR 0x27] @ s @ [CHR 0x27]"

fun hex_digits :: "nat \<Rightarrow> string" where
  "hex_digits n =
     (if n < 16 then [''0123456789abcdef'' ! n]
      else hex_digits (n div 16) @ [''0123456789abcdef'' ! (n mod 16)])"

text \<open>How a message shows one character of the spec: \<^verbatim>\<open>'%c'\<close>, or \<^verbatim>\<open>'\x%x'\<close> outside 33 to 127.\<close>

definition quote_char :: "char \<Rightarrow> string" where
  "quote_char c =
     (let n = (of_char c :: nat)
      in if 32 < n \<and> n < 128 then quote [c] else quote ([CHR 0x5C, CHR ''x''] @ hex_digits n))"

definition is_alignment_token :: "char \<Rightarrow> bool" where
  "is_alignment_token c = (c = CHR ''<'' \<or> c = CHR ''>'' \<or> c = CHR ''='' \<or> c = CHR ''^'')"

definition is_sign_element :: "char \<Rightarrow> bool" where
  "is_sign_element c = (c = CHR '' '' \<or> c = CHR ''+'' \<or> c = CHR ''-'')"

definition take_flag :: "char \<Rightarrow> string \<Rightarrow> bool \<times> string" where
  "take_flag f s =
     (case s of
        [] \<Rightarrow> (False, [])
      | c # rest \<Rightarrow> if c = f then (True, rest) else (False, s))"

definition ssize_max :: nat where
  "ssize_max = 2 ^ 63 - 1"

record str_format =
  fill_char :: char
  align_char :: char
  sign_char :: "char option"
  no_neg_0 :: bool
  alternate :: bool
  width :: nat
  thousands :: "char option"
  precision :: "nat option"
  type_char :: char

definition parse_format_spec :: "string \<Rightarrow> pyexn + str_format" where
  "parse_format_spec spec =
     (let (fill, al, fill_given, r1) =
            (case spec of
               [] \<Rightarrow> (CHR '' '', CHR ''<'', False, [])
             | [a] \<Rightarrow>
                 if is_alignment_token a then (CHR '' '', a, False, [])
                 else (CHR '' '', CHR ''<'', False, spec)
             | f # a # rest \<Rightarrow>
                 if is_alignment_token a then (f, a, True, rest)
                 else if is_alignment_token f then (CHR '' '', f, False, a # rest)
                 else (CHR '' '', CHR ''<'', False, spec));
          (sign, r2) =
            (case r1 of
               [] \<Rightarrow> (None, [])
             | c # rest \<Rightarrow> if is_sign_element c then (Some c, rest) else (None, r1));
          (z, r3) = take_flag (CHR ''z'') r2;
          (alt, r4) = take_flag (CHR ''#'') r3;
          (zero, r5) = (if fill_given then (False, r4) else take_flag (CHR ''0'') r4);
          wd = takeWhile is_digit r5;
          r6 = dropWhile is_digit r5;
          (comma, r7) = take_flag (CHR '','') r6;
          (underscore, r8) = take_flag (CHR ''_'') r7;
          comma_again = (r8 \<noteq> [] \<and> hd r8 = CHR '','');
          (dot, r9) = take_flag (CHR ''.'') r8;
          pd = (if dot then takeWhile is_digit r9 else []);
          r10 = (if dot then dropWhile is_digit r9 else r9);
          ty = (case r10 of [] \<Rightarrow> CHR ''s'' | c # rest \<Rightarrow> c);
          sep = (if underscore then Some (CHR ''_'') else if comma then Some (CHR '','') else None)
      in if ssize_max < digits_value wd then Inl (ValueError ''Too many decimal digits in format string'')
         else if (comma \<and> underscore) \<or> (underscore \<and> comma_again)
         then Inl (ValueError (''Cannot specify both '' @ quote '','' @ '' and '' @ quote ''_'' @ ''.''))
         else if dot \<and> ssize_max < digits_value pd
         then Inl (ValueError ''Too many decimal digits in format string'')
         else if dot \<and> pd = [] then Inl (ValueError ''Format specifier missing precision'')
         else if 1 < length r10
         then Inl (ValueError (''Invalid format specifier '' @ quote spec @
                               '' for object of type '' @ quote ''str''))
         else if sep \<noteq> None \<and> ty \<notin> set ''defgEG%F'' \<and> \<not> (underscore \<and> ty \<in> set ''boxX'')
         then Inl (ValueError (''Cannot specify '' @ quote_char (case sep of Some c \<Rightarrow> c | None \<Rightarrow> ty) @
                               '' with '' @ quote_char ty @ ''.''))
         else Inr \<lparr> fill_char = (if zero then CHR ''0'' else fill), align_char = al, sign_char = sign,
                     no_neg_0 = z, alternate = alt, width = digits_value wd, thousands = sep,
                     precision = (if dot then Some (digits_value pd) else None), type_char = ty \<rparr>)"

definition format_string_internal :: "string \<Rightarrow> str_format \<Rightarrow> pyexn + string" where
  "format_string_internal v f =
     (if sign_char f = Some (CHR '' '')
      then Inl (ValueError ''Space not allowed in string format specifier'')
      else if sign_char f \<noteq> None
      then Inl (ValueError ''Sign not allowed in string format specifier'')
      else if no_neg_0 f
      then Inl (ValueError ''Negative zero coercion (z) not allowed in string format specifier'')
      else if alternate f
      then Inl (ValueError ''Alternate form (#) not allowed in string format specifier'')
      else if align_char f = CHR ''=''
      then Inl (ValueError (quote ''='' @ '' alignment not allowed in string format specifier''))
      else (let s = (case precision f of None \<Rightarrow> v | Some p \<Rightarrow> take p v);
                n = width f - length s;
                lpad = (if align_char f = CHR ''>'' then n
                        else if align_char f = CHR ''^'' then n div 2 else 0)
            in Inr (replicate lpad (fill_char f) @ s @ replicate (n - lpad) (fill_char f))))"

definition format_str :: "string \<Rightarrow> string \<Rightarrow> pyexn + string" where
  "format_str v spec =
     (if spec = [] then Inr v
      else (case parse_format_spec spec of
              Inl e \<Rightarrow> Inl e
            | Inr f \<Rightarrow>
                if type_char f = CHR ''s'' then format_string_internal v f
                else Inl (ValueError (''Unknown format code '' @ quote_char (type_char f) @
                                      '' for object of type '' @ quote ''str''))))"

subsection \<open>Evaluating a literal\<close>

text \<open>
  The evaluation at run time, left to right. The arguments are the text produced so
  far, reversed; the stack of open fields, innermost first, each with its expression
  text and, once the colon is passed, its format spec (both reversed); and the rest of
  the literal. Text that is no well-formed literal is never evaluated, since the
  compiler refuses it; it is marked here with \<^verbatim>\<open>SyntaxError\<close>.
\<close>

definition close_field :: "string \<Rightarrow> string option \<Rightarrow> pyexn + string" where
  "close_field e sp =
     (case eval_literal (rev e) of
        Inl err \<Rightarrow> Inl err
      | Inr v \<Rightarrow> format_str v (case sp of None \<Rightarrow> [] | Some t \<Rightarrow> rev t))"

definition in_literal :: "string \<Rightarrow> bool" where
  "in_literal e = odd (length (filter (\<lambda>c. c = CHR 0x22) e))"

fun fstring_eval ::
  "string \<Rightarrow> (string \<times> string option) list \<Rightarrow> string \<Rightarrow> pyexn + string" where
  "fstring_eval out [] [] = Inr (rev out)"
| "fstring_eval out (f # fs) [] = Inl (SyntaxError ''f-string: expecting a closing brace'')"
| "fstring_eval out [] (c # cs) =
     (if c = CHR ''{'' then
        (case cs of
           [] \<Rightarrow> Inl (SyntaxError ''f-string: expecting a closing brace'')
         | d # ds \<Rightarrow>
             if d = CHR ''{'' then fstring_eval (CHR ''{'' # out) [] ds
             else fstring_eval out [([], None)] cs)
      else if c = CHR ''}'' then
        (case cs of
           [] \<Rightarrow> Inl (SyntaxError ''f-string: single closing brace is not allowed'')
         | d # ds \<Rightarrow>
             if d = CHR ''}'' then fstring_eval (CHR ''}'' # out) [] ds
             else Inl (SyntaxError ''f-string: single closing brace is not allowed''))
      else fstring_eval (c # out) [] cs)"
| "fstring_eval out ((e, None) # fs) (c # cs) =
     (if in_literal e then fstring_eval out ((c # e, None) # fs) cs
      else if c = CHR '':'' then fstring_eval out ((e, Some []) # fs) cs
      else if c = CHR ''}'' then
        (case close_field e None of
           Inl err \<Rightarrow> Inl err
         | Inr t \<Rightarrow>
             (case fs of
                [] \<Rightarrow> fstring_eval (rev t @ out) [] cs
              | (pe, psp) # ps \<Rightarrow>
                  fstring_eval out ((pe, Some (rev t @ (case psp of None \<Rightarrow> [] | Some u \<Rightarrow> u))) # ps) cs))
      else fstring_eval out ((c # e, None) # fs) cs)"
| "fstring_eval out ((e, Some sp) # fs) (c # cs) =
     (if c = CHR ''{'' then fstring_eval out (([], None) # (e, Some sp) # fs) cs
      else if c = CHR ''}'' then
        (case close_field e (Some sp) of
           Inl err \<Rightarrow> Inl err
         | Inr t \<Rightarrow>
             (case fs of
                [] \<Rightarrow> fstring_eval (rev t @ out) [] cs
              | (pe, psp) # ps \<Rightarrow>
                  fstring_eval out ((pe, Some (rev t @ (case psp of None \<Rightarrow> [] | Some u \<Rightarrow> u))) # ps) cs))
      else fstring_eval out ((e, Some (c # sp)) # fs) cs)"

definition fstring :: "string \<Rightarrow> pyexn + string" where
  "fstring literal = fstring_eval [] [] literal"

subsection \<open>Nesting\<close>

text \<open>
  How deep the replacement fields of a literal nest: one for a field of the literal
  itself, two for a field in the format spec of such a field, and so on. The scan
  keeps, for every open field, whether its colon is passed and whether it stands inside
  a string literal of the expression, and at the top level a brace that may be the
  first of a doubled one; a closing brace of the top level that is not doubled is
  noted as stray. CPython up to version 3.11 compiles a literal only if its
  fields nest at most two deep, and otherwise refuses the module that holds it with
  \<^verbatim>\<open>SyntaxError: f-string: expressions nested too deeply\<close>.
\<close>

record scan =
  pending :: "char option"
  open_fields :: "(bool \<times> bool) list"
  deepest :: nat
  stray :: bool

definition scan_step :: "scan \<Rightarrow> char \<Rightarrow> scan" where
  "scan_step s c =
     (case open_fields s of
        [] \<Rightarrow>
          (if pending s = Some (CHR ''{'') then
             (if c = CHR ''{'' then s\<lparr>pending := None\<rparr>
              else s\<lparr>pending := None,
                     open_fields := (if c = CHR ''}'' then [] else [(c = CHR '':'', c = CHR 0x22)]),
                     deepest := max 1 (deepest s)\<rparr>)
           else if pending s = Some (CHR ''}'')
           then s\<lparr>pending := None, stray := (stray s \<or> c \<noteq> CHR ''}'')\<rparr>
           else if c = CHR ''{'' \<or> c = CHR ''}'' then s\<lparr>pending := Some c\<rparr>
           else s)
      | (in_spec, in_lit) # fs \<Rightarrow>
          (if in_spec then
             (if c = CHR ''{''
              then s\<lparr>open_fields := (False, False) # (in_spec, in_lit) # fs,
                     deepest := max (Suc (Suc (length fs))) (deepest s)\<rparr>
              else if c = CHR ''}'' then s\<lparr>open_fields := fs\<rparr>
              else s)
           else if in_lit then s\<lparr>open_fields := (False, c \<noteq> CHR 0x22) # fs\<rparr>
           else if c = CHR 0x22 then s\<lparr>open_fields := (False, True) # fs\<rparr>
           else if c = CHR '':'' then s\<lparr>open_fields := (True, False) # fs\<rparr>
           else if c = CHR ''}'' then s\<lparr>open_fields := fs\<rparr>
           else s))"

definition scan_literal :: "string \<Rightarrow> scan" where
  "scan_literal literal =
     foldl scan_step \<lparr>pending = None, open_fields = [], deepest = 0, stray = False\<rparr>
       literal"

definition fstring_levels :: "string \<Rightarrow> nat" where
  "fstring_levels literal = deepest (scan_literal literal)"

definition system_prompt_lines :: "string list" where
  \<open>system_prompt_lines =
     [''You are an Expert SME who answers user queries about organizational capabilities, processes, and subprocesses. '',
      ''Your task is to return responses in a structured "process-definition manner" based on the capability requested by the user. '',
      ''The user will provide a capability name (e.g., "Program Design & Origination"), and you must return the relevant core processes and subprocesses exactly in the defined style.'',
      '''',
      ''### Rules:'',
      ''- Always respond with the capability name, followed by its core processes and subprocesses.'',
      ''- Each core process must list its subprocesses and their aligned lifecycle phases.'',
      ''- Do not invent new processes or phases. Only return what exists in the knowledge base.'',
      ''- If the capability is not found, politely state: "This capability is not defined in the current framework."'',
      ''- Keep the response concise, structured, and consistent with the examples.'',
      '''',
      ''---'',
      '''',
      ''### Few-Shot Examples'',
      '''',
      ''#### Example 1'',
      ''**User Query:** Strategy & Resource Mobilization  '',
      ''**Assistant Response:**'',
      ''{'',
      ''  "Capability": "Strategy & Resource Mobilization",'',
      ''  "Core Processes": ['',
      ''    {'',
      ''      "Core Process": "Portfolio Strategy Definition",'',
      ''      "Subprocesses": ['',
      ''        {'',
      ''          "Subprocess": "Needs Assessment & Gap Analysis",'',
      ''          "Aligned Lifecycle Phase": "Strategy, Diagnostics, and Pipeline"'',
      ''        },'',
      ''        {'',
      ''          "Subprocess": "Funding Instrument Selection",'',
      ''          "Aligned Lifecycle Phase": "Strategy, Diagnostics, and Pipeline"'',
      ''        }'',
      ''      ]'',
      ''    },'',
      ''    {'',
      ''      "Core Process": "Donor & Fund Engagement",'',
      ''      "Subprocesses": ['',
      ''        {'',
      ''          "Subprocess": "Proposal Preparation & Submission",'',
      ''          "Aligned Lifecycle Phase": "Donor Engagement and Fundraising"'',
      ''        },'',
      ''        {'',
      ''          "Subprocess": "Grant Agreement Negotiation",'',
      ''          "Aligned Lifecycle Phase": "Donor Engagement and Fundraising"'',
      ''        },'',
      ''        {'',
      ''          "Subprocess": "Donor Visibility Planning",'',
      ''          "Aligned Lifecycle Phase": "Donor Engagement and Fundraising"'',
      ''        }'',
      ''      ]'',
      ''    }'',
      ''  ]'',
      ''}'',
      '''',
      ''---'',
      '''',
      ''#### Example 2'',
      ''**User Query:** Program Execution & Financial Management  '',
      ''**Assistant Response:**'',
      ''{'',
      ''  "Capability": "Program Execution & Financial Management",'',
      ''  "Core Processes": ['',
      ''    {'',
      ''      "Core Process": "Funds Disbursement",'',
      ''      "Subprocesses": ['',
      ''        {'',
      ''          "Subprocess": "Milestone Verification & Approval",'',
      ''          "Aligned Lifecycle Phase": "Disbursement and Financial Management"'',
      ''        },'',
      ''        {'',
      ''          "Subprocess": "Payment Processing (FM & Tax Handling)",'',
      ''          "Aligned Lifecycle Phase": "Disbursement and Financial Management"'',
      ''        },'',
      ''        {'',
      ''          "Subprocess": "Financial Reporting & Controls",'',
      ''          "Aligned Lifecycle Phase": "Disbursement and Financial Management"'',
      ''        }'',
      ''      ]'',
      ''    },'',
      ''    {'',
      ''      "Core Process": "Implementation Oversight",'',
      ''      "Subprocesses": ['',
      ''        {'',
      ''          "Subprocess": "Technical Supervision & Monitoring",'',
      ''          "Aligned Lifecycle Phase": "Implementation Supervision and Technical Oversight"'',
      ''        },'',
      ''        {'',
      ''          "Subprocess": "Consultant & Output Management",'',
      ''          "Aligned Lifecycle Phase": "Implementation Supervision and Technical Oversight"'',
      ''        },'',
      ''        {'',
      ''          "Subprocess": "Change Request Handling",'',
      ''          "Aligned Lifecycle Phase": "Implementation Supervision and Technical Oversight"'',
      ''        }'',
      ''      ]'',
      ''    }'',
      ''  ]'',
      ''}'',
      '''',
      ''---'',
      '''',
      ''#### Example 3'',
      ''**User Query:** Performance & Assurance  '',
      ''**Assistant Response:**'',
      ''{'',
      ''  "Capability": "Performance & Assurance",'',
      ''  "Core Processes": ['',
      ''    {'',
      ''      "Core Process": "Monitoring, Evaluation, and Learning (MEL)",'',
      ''      "Subprocesses": ['',
      ''        {'',
      ''          "Subprocess": "KPI Collection & Evidence Verification",'',
      ''          "Aligned Lifecycle Phase": "Monitoring, Evaluation, and Learning (MEL)"'',
      ''        },'',
      ''        {'',
      ''          "Subprocess": "Mid-term Completion Evaluation",'',
      ''          "Aligned Lifecycle Phase": "Monitoring, Evaluation, and Learning (MEL)"'',
      ''        },'',
      ''        {'',
      ''          "Subprocess": "Lessons Learned Capture & Publication",'',
      ''          "Aligned Lifecycle Phase": "Monitoring, Evaluation, and Learning (MEL)"'',
      ''        }'',
      ''      ]'',
      ''    },'',
      ''    {'',
      ''      "Core Process": "Audit & Compliance Management",'',
      ''      "Subprocesses": ['',
      ''        {'',
      ''          "Subprocess": "External/Internal Audit Response",'',
      ''          "Aligned Lifecycle Phase": "Audit, Compliance, and Visibility"'',
      ''        },'',
      ''        {'',
      ''          "Subprocess": "Regulatory Compliance (GDPR, Sanctions)",'',
      ''          "Aligned Lifecycle Phase": "Audit, Compliance, and Visibility"'',
      ''        },'',
      ''        {'',
      ''          "Subprocess": "Donor Reporting & Visibility Assurance",'',
      ''          "Aligned Lifecycle Phase": "Audit, Compliance, and Visibility"'',
      ''        }'',
      ''      ]'',
      ''    },'',
      ''    {'',
      ''      "Core Process": "Program Closure & Handoff",'',
      ''      "Subprocesses": ['',
      ''        {'',
      ''          "Subprocess": "Financial Decommitment & Closure",'',
      ''          "Aligned Lifecycle Phase": "Closure and Handover"'',
      ''        },'',
      ''        {'',
      ''          "Subprocess": "Document Archiving & Records Management",'',
      ''          "Aligned Lifecycle Phase": "Closure and Handover"'',
      ''        },'',
      ''        {'',
      ''          "Subprocess": "Final Handoff & Close-out Letter Issuance",'',
      ''          "Aligned Lifecycle Phase": "Closure and Handover"'',
      ''        }'',
      ''      ]'',
      ''    }'',
      ''  ]'',
      ''}'',
      '''',
      ''---'',
      '''',
      ''### Final Instruction:'',
      ''Always return answers in this structured "process-definition manner" when the user provides a capability name.'']\<close>

text \<open>
  The system prompt of lines 125 to 291: the text between the triple quotes, and what
  evaluating it as a formatted string literal gives when \<^verbatim>\<open>generate_content\<close> runs.
  The prompt is built after the connection is obtained and before the chat API is
  called.
\<close>

definition system_prompt_source :: string where
  "system_prompt_source =
     ''\<newline>'' @ concat (map (\<lambda>l. l @ ''\<newline>'') system_prompt_lines)"

definition system_prompt :: "pyexn + string" where
  "system_prompt = fstring system_prompt_source"

text \<open>
  The format spec of the first innermost field of the prompt, the one for
  \<^verbatim>\<open>"Subprocess"\<close>: the text from the colon of line 151 to the closing brace of line
  153.
\<close>

definition subprocess_format_spec :: string where
  \<open>subprocess_format_spec =
     '' "Needs Assessment & Gap Analysis",\<newline>          "Aligned Lifecycle Phase": "Strategy, Diagnostics, and Pipeline"\<newline>        ''\<close>

section \<open>Generating content\<close>

text \<open>Decimal rendering of a natural number, as \<^verbatim>\<open>{i}\<close> renders the section index.\<close>

fun show_nat :: "nat \<Rightarrow> string" where
  "show_nat n =
     (if n < 10 then [char_of (48 + n)]
      else show_nat (n div 10) @ [char_of (48 + n mod 10)])"

text \<open>\<^verbatim>\<open>enumerate(xs, start)\<close>.\<close>

fun enumerate_from :: "nat \<Rightarrow> 'a list \<Rightarrow> (nat \<times> 'a) list" where
  "enumerate_from i [] = []"
| "enumerate_from i (x # xs) = (i, x) # enumerate_from (Suc i) xs"

text \<open>
  Lines 118 to 123. \<^verbatim>\<open>context_sections\<close> is \<^verbatim>\<open>None\<close> or a list of strings; both
  \<^verbatim>\<open>None\<close> and the empty list are falsy.
\<close>

definition build_workspace_content :: "string list option \<Rightarrow> string" where
  "build_workspace_content context_sections =
     (case context_sections of
        None \<Rightarrow> []
      | Some secs \<Rightarrow>
          if secs = [] then []
          else foldl (\<lambda>w (i, sec). w @ ''\<newline>'' @ show_nat i @ ''. '' @ sec @ ''\<newline>'')
                     ''\<newline>=== CONTENT SECTIONS ===\<newline>''
                     (enumerate_from 1 secs))"

record generation_result =
  content :: string
  context_tokens :: int
  response_tokens :: int
  full_context :: string

definition build_request :: "config \<Rightarrow> string \<Rightarrow> string \<Rightarrow> chat_request" where
  "build_request c sp user_message =
     \<lparr> req_model = deployment c, req_temperature = ''0.2'', req_max_tokens = 600,
       req_top_p = ''0.9'', req_frequency_penalty = ''0.8'',
       req_messages = [(''system'', sp), (''user'', user_message)] \<rparr>"

text \<open>
  Lines 293 to 321, for a system prompt that has been built: the request, the first
  completion and the result. Taking \<^verbatim>\<open>choices[0]\<close> of an empty list raises
  \<^verbatim>\<open>IndexError\<close>, and \<^verbatim>\<open>.strip()\<close> on a \<^verbatim>\<open>None\<close> content raises
  \<^verbatim>\<open>AttributeError\<close>.
\<close>

definition request_completion ::
  "external \<Rightarrow> connection \<Rightarrow> config \<Rightarrow> string \<Rightarrow> string \<Rightarrow> string \<Rightarrow> client_state
     \<Rightarrow> (pyexn + generation_result) \<times> client_state" where
  "request_completion x client c workspace_content sp user_message s =
     (let s' = s\<lparr>calls := calls s @ [ChatCompletion]\<rparr>
      in case chat_create x client (build_request c sp user_message) of
           Inl e \<Rightarrow> (Inl e, s')
         | Inr response \<Rightarrow>
             (case response of
                [] \<Rightarrow> (Inl (PyExn ''IndexError'' ''list index out of range'' None), s')
              | choice # others \<Rightarrow>
                  (case choice of
                     None \<Rightarrow>
                       (Inl (PyExn ''AttributeError''
                               (quote ''NoneType'' @ '' object has no attribute '' @ quote ''strip'')
                               None), s')
                   | Some text \<Rightarrow>
                       (let generated_content = strip text
                        in (Inr \<lparr> content = generated_content,
                                   context_tokens = count_tokens x workspace_content default_model,
                                   response_tokens = count_tokens x generated_content default_model,
                                   full_context = sp @ ''\<newline>'' @ user_message \<rparr>,
                            s')))))"

text \<open>
  The body of the guarded block of \<^verbatim>\<open>generate_content\<close>, lines 115 to 321: the
  configuration, the connection, the workspace content, the system prompt, and then
  the request.
\<close>

definition generate_content_body ::
  "external \<Rightarrow> string \<Rightarrow> string list option \<Rightarrow> client_state
     \<Rightarrow> (pyexn + generation_result) \<times> client_state" where
  "generate_content_body x prompt context_sections s =
     (case load_config_from_vault x s of
        (Inl e, s1) \<Rightarrow> (Inl e, s1)
      | (Inr c, s1) \<Rightarrow>
          (case get_client x s1 of
             (Inl e, s2) \<Rightarrow> (Inl e, s2)
           | (Inr client, s2) \<Rightarrow>
               (let workspace_content = build_workspace_content context_sections
                in case system_prompt of
                     Inl e \<Rightarrow> (Inl e, s2)
                   | Inr sp \<Rightarrow> request_completion x client c workspace_content sp prompt s2)))"

text \<open>
  \<^verbatim>\<open>generate_content\<close> with its handler, lines 323 to 325: whatever the body raises
  is replaced by a plain \<^verbatim>\<open>Exception\<close> raised while the original is being handled.
\<close>

definition generate_content ::
  "external \<Rightarrow> string \<Rightarrow> string list option \<Rightarrow> client_state
     \<Rightarrow> (pyexn + generation_result) \<times> client_state" where
  "generate_content x prompt context_sections s =
     (case generate_content_body x prompt context_sections s of
        (Inl e, s') \<Rightarrow>
          (Inl (PyExn ''Exception'' (''Content generation failed: '' @ exn_str e) (Some e)), s')
      | (Inr r, s') \<Rightarrow> (Inr r, s'))"

section \<open>The capability repository\<close>

text \<open>
  Modelled from the spec: the \<^verbatim>\<open>Capability\<close> model of \<^verbatim>\<open>database.models\<close>, which is
  not among the sources; the spec gives a capability record an id, a name, a
  description, a soft-delete marker and associated process references. The queries
  of \<^verbatim>\<open>capability_repository.py\<close> name the columns \<^verbatim>\<open>id\<close> and \<^verbatim>\<open>deleted_at\<close> and the
  relation \<^verbatim>\<open>processes\<close>. The table is the list of its rows.
\<close>

record capability =
  cap_id :: int
  cap_name :: string
  cap_description :: string
  deleted_at :: "string option"
  processes :: "int list"

type_synonym capability_table = "capability list"

text \<open>\<^verbatim>\<open>Capability.filter(deleted_at=None).prefetch_related('processes').all()\<close>.\<close>

definition fetch_all_capabilities :: "capability_table \<Rightarrow> capability list" where
  "fetch_all_capabilities tbl = filter (\<lambda>c. deleted_at c = None) tbl"

text \<open>
  \<^verbatim>\<open>Capability.get(id=..., deleted_at=None)\<close> returns the only matching row; no row
  is \<^verbatim>\<open>DoesNotExist\<close>, which the function turns into \<^verbatim>\<open>None\<close>, and several rows are
  \<^verbatim>\<open>MultipleObjectsReturned\<close>, which it lets through.
\<close>

definition fetch_by_id :: "capability_table \<Rightarrow> int \<Rightarrow> pyexn + capability option" where
  "fetch_by_id tbl capability_id =
     (case filter (\<lambda>c. cap_id c = capability_id \<and> deleted_at c = None) tbl of
        [] \<Rightarrow> Inr None
      | [c] \<Rightarrow> Inr (Some c)
      | c # d # cs \<Rightarrow> Inl (PyExn ''MultipleObjectsReturned'' ''Multiple objects returned'' None))"

text \<open>
  \<^verbatim>\<open>Capability.filter(id=capability_id).delete()\<close> deletes the matching rows from the
  table and returns how many there were.
\<close>

definition delete_capability :: "capability_table \<Rightarrow> int \<Rightarrow> bool \<times> capability_table" where
  "delete_capability tbl capability_id =
     (let deleted = int (length (filter (\<lambda>c. cap_id c = capability_id) tbl))
      in (deleted > 0, filter (\<lambda>c. cap_id c \<noteq> capability_id) tbl))"

section \<open>Vocabulary of the properties\<close>

text \<open>
  The four configuration fields, each with the secret it is fetched from (lines 43,
  48, 53, 58), the environment value that back-fills it (lines 63 to 66) and its key in
  the dictionary.
\<close>

datatype field = ApiKey | ApiBase | ModelVersion | Deployment

fun secret_name :: "field \<Rightarrow> string" where
  "secret_name ApiKey = ''AzureLLMKey''"
| "secret_name ApiBase = ''AzureOpenAiBase''"
| "secret_name ModelVersion = ''AzureOpenAiVersion''"
| "secret_name Deployment = ''AzureOpenAiDeployment''"

fun env_value :: "environ \<Rightarrow> field \<Rightarrow> string option" where
  "env_value e ApiKey = e ''AZURE_OPENAI_API_KEY''"
| "env_value e ApiBase = e ''AZURE_OPENAI_ENDPOINT''"
| "env_value e ModelVersion =
     Some (case e ''AZURE_OPENAI_API_VERSION'' of None \<Rightarrow> ''2024-02-01'' | Some v \<Rightarrow> v)"
| "env_value e Deployment = e ''AZURE_OPENAI_DEPLOYMENT''"

fun field_of :: "config \<Rightarrow> field \<Rightarrow> string option" where
  "field_of c ApiKey = api_key c"
| "field_of c ApiBase = api_base c"
| "field_of c ModelVersion = model_version c"
| "field_of c Deployment = deployment c"

text \<open>A configuration is usable when the three required fields are present.\<close>

definition usable :: "config \<Rightarrow> bool" where
  "usable c = (truthy (api_key c) \<and> truthy (api_base c) \<and> truthy (deployment c))"

text \<open>
  The states an instance can be in: a cached connection was built from the cached
  configuration, which was usable.
\<close>

definition client_ok :: "client_state \<Rightarrow> bool" where
  "client_ok s =
     (case self_client s of
        None \<Rightarrow> True
      | Some conn \<Rightarrow>
          (case self_config s of
             None \<Rightarrow> False
           | Some c \<Rightarrow> usable c \<and> conn = AzureOpenAI c))"

text \<open>How many sessions, and how many chat completions, a history holds.\<close>

fun is_open_session :: "call \<Rightarrow> bool" where
  "is_open_session (OpenSession url) = True"
| "is_open_session (GetSecret name) = False"
| "is_open_session ChatCompletion = False"

definition sessions :: "call list \<Rightarrow> nat" where
  "sessions cs = length (filter is_open_session cs)"

definition completions :: "call list \<Rightarrow> nat" where
  "completions cs = length (filter (\<lambda>c. c = ChatCompletion) cs)"

section \<open>Concrete environments and stores\<close>

text \<open>The environment of the end-to-end scenarios, and the same without a deployment.\<close>

definition scenario_env :: environ where
  "scenario_env =
     [''AZURE_OPENAI_API_KEY'' \<mapsto> ''k'', ''AZURE_OPENAI_ENDPOINT'' \<mapsto> ''https://x'',
      ''AZURE_OPENAI_DEPLOYMENT'' \<mapsto> ''gpt-4'']"

definition no_deployment_env :: environ where
  "no_deployment_env =
     [''AZURE_OPENAI_API_KEY'' \<mapsto> ''k'', ''AZURE_OPENAI_ENDPOINT'' \<mapsto> ''https://x'']"

definition full_env :: environ where
  "full_env =
     [''AZURE_OPENAI_API_KEY'' \<mapsto> ''env-key'', ''AZURE_OPENAI_ENDPOINT'' \<mapsto> ''https://env'',
      ''AZURE_OPENAI_API_VERSION'' \<mapsto> ''2024-06-01'',
      ''AZURE_OPENAI_DEPLOYMENT'' \<mapsto> ''env-deployment'']"

text \<open>A store that cannot be reached, and a store that serves all four secrets.\<close>

definition unreachable_store :: "string \<Rightarrow> pyexn + secret_client" where
  "unreachable_store url = Inl (PyExn ''ServiceRequestError'' ''vault unreachable'' None)"

definition stored_secrets :: secret_client where
  "stored_secrets name =
     (if name = ''AzureLLMKey'' then Inr (Some ''vault-key'')
      else if name = ''AzureOpenAiBase'' then Inr (Some ''https://vault'')
      else if name = ''AzureOpenAiVersion'' then Inr (Some ''2023-05-15'')
      else if name = ''AzureOpenAiDeployment'' then Inr (Some ''vault-deployment'')
      else Inl (PyExn ''ResourceNotFoundError'' ''secret not found'' None))"

text \<open>The same store with one fetch failing, and with one secret stored as given.\<close>

definition failing :: "string \<Rightarrow> secret_client \<Rightarrow> secret_client" where
  "failing bad client name =
     (if name = bad then Inl (PyExn ''ResourceNotFoundError'' ''secret not found'' None)
      else client name)"

definition serving :: "string \<Rightarrow> string option \<Rightarrow> secret_client \<Rightarrow> secret_client" where
  "serving key v client name = (if name = key then Inr v else client name)"

text \<open>
  A chat API that answers every request with the single completion \<^verbatim>\<open>X\<close>, a
  tokenizer registry that knows no model, and one whose encodings give a token per
  character.
\<close>

definition stub_chat :: "connection \<Rightarrow> chat_request \<Rightarrow> pyexn + chat_response" where
  "stub_chat conn req = Inr [Some ''X'']"

definition no_tokenizer :: "string \<Rightarrow> pyexn + (string \<Rightarrow> pyexn + nat list)" where
  "no_tokenizer model = Inl (PyExn ''KeyError'' ''could not map model to a tokeniser'' None)"

definition char_tokenizer :: "string \<Rightarrow> pyexn + (string \<Rightarrow> pyexn + nat list)" where
  "char_tokenizer model = Inr (\<lambda>text. Inr (map of_char text))"

definition world :: "environ \<Rightarrow> (string \<Rightarrow> pyexn + secret_client) \<Rightarrow> external" where
  "world e store = \<lparr> env = e, open_session = store, chat_create = stub_chat,
                     encoding_for_model = no_tokenizer \<rparr>"

definition reachable :: "secret_client \<Rightarrow> string \<Rightarrow> pyexn + secret_client" where
  "reachable client url = Inr client"

text \<open>An instance whose \<^verbatim>\<open>key_vault_url\<close> attribute has been cleared after construction.\<close>

definition without_location :: "client_state \<Rightarrow> client_state" where
  "without_location s = s\<lparr>key_vault_url := None\<rparr>"

text \<open>A table holding one live capability.\<close>

definition one_capability :: capability_table where
  "one_capability =
     [\<lparr> cap_id = 1, cap_name = ''Strategy & Resource Mobilization'',
        cap_description = ''Portfolio strategy and donor engagement'',
        deleted_at = None, processes = [] \<rparr>]"

section \<open>Basic facts about resolution\<close>

lemma load_config_cached:
  "self_config s = Some c \<Longrightarrow> load_config_from_vault x s = (Inr c, s)"
  by (simp add: load_config_from_vault_def)

lemma load_config_total:
  "\<exists>c s'. load_config_from_vault x s = (Inr c, s') \<and> self_config s' = Some c
           \<and> self_client s' = self_client s \<and> key_vault_url s' = key_vault_url s"
  by (auto simp: load_config_from_vault_def Let_def split: option.splits sum.splits)

lemma load_config_no_location:
  "self_config s = None \<Longrightarrow> \<not> truthy (py_or (env x ''KEY_VAULT_URL'') (key_vault_url s)) \<Longrightarrow>
   load_config_from_vault x s = (Inr (env_config (env x)), s\<lparr>self_config := Some (env_config (env x))\<rparr>)"
  by (cases "py_or (env x ''KEY_VAULT_URL'') (key_vault_url s)")
     (simp_all add: load_config_from_vault_def Let_def)

lemma load_config_session_fails:
  "self_config s = None \<Longrightarrow> py_or (env x ''KEY_VAULT_URL'') (key_vault_url s) = Some url \<Longrightarrow>
   url \<noteq> [] \<Longrightarrow> open_session x url = Inl err \<Longrightarrow>
   load_config_from_vault x s =
     (Inr (env_config (env x)),
      s\<lparr>self_config := Some (env_config (env x)), calls := calls s @ [OpenSession url]\<rparr>)"
  by (simp add: load_config_from_vault_def Let_def)

lemma load_config_session_opens:
  "self_config s = None \<Longrightarrow> py_or (env x ''KEY_VAULT_URL'') (key_vault_url s) = Some url \<Longrightarrow>
   url \<noteq> [] \<Longrightarrow> open_session x url = Inr client \<Longrightarrow>
   load_config_from_vault x s =
     (Inr (vault_config (env x) client),
      s\<lparr>self_config := Some (vault_config (env x) client), calls := calls s @ vault_calls url\<rparr>)"
  by (simp add: load_config_from_vault_def Let_def)

lemma env_config_field: "field_of (env_config e) g = env_value e g"
  by (cases g) (simp_all add: env_config_def env_get_default_def split: option.splits)

lemma vault_config_field:
  "field_of (vault_config e client) g = py_or (try_get_secret client (secret_name g)) (env_value e g)"
  by (cases g) (simp_all add: vault_config_def Let_def env_get_default_def split: option.splits)

section \<open>Resolution from the environment and from the store\<close>

text \<open>
  Claim C3. For every environment: when opening the secret-store session at the
  resolved location fails, the first resolution returns, without raising, the bundle
  whose key, base and deployment are the environment variables, and whose version is
  its environment variable, or \<^verbatim>\<open>2024-02-01\<close> when that variable is unset.
\<close>

theorem session_failure_falls_back_to_environment:
  assumes "self_config s = None"
    and "py_or (env x ''KEY_VAULT_URL'') (key_vault_url s) = Some url" and "url \<noteq> []"
    and "open_session x url = Inl err"
  shows "fst (load_config_from_vault x s) =
           Inr \<lparr> api_key = env x ''AZURE_OPENAI_API_KEY'',
                 api_base = env x ''AZURE_OPENAI_ENDPOINT'',
                 model_version = Some (case env x ''AZURE_OPENAI_API_VERSION'' of
                                         None \<Rightarrow> ''2024-02-01'' | Some v \<Rightarrow> v),
                 deployment = env x ''AZURE_OPENAI_DEPLOYMENT'' \<rparr>"
  using assms
  by (simp add: load_config_session_fails env_config_def env_get_default_def split: option.splits)

theorem session_failure_falls_back_to_environment_witness:
  "open_session (world scenario_env unreachable_store) default_key_vault_url
     = Inl (PyExn ''ServiceRequestError'' ''vault unreachable'' None)
   \<and> fst (load_config_from_vault (world scenario_env unreachable_store) (init scenario_env)) =
           Inr \<lparr> api_key = Some ''k'', api_base = Some ''https://x'',
                 model_version = Some ''2024-02-01'', deployment = Some ''gpt-4'' \<rparr>"
  using session_failure_falls_back_to_environment
          [of "init scenario_env" "world scenario_env unreachable_store" default_key_vault_url
              "PyExn ''ServiceRequestError'' ''vault unreachable'' None"]
  by (simp add: init_def world_def scenario_env_def unreachable_store_def py_or_def
                default_key_vault_url_def)

text \<open>
  Claim C10. When the session opens and the store answers the fetch of a field with an
  empty string (or with no value), the resolved field is the field's environment
  value: the variable for key, base and deployment, and for the version the variable
  or \<^verbatim>\<open>2024-02-01\<close> when it is unset. This holds for each of the four fields.
\<close>

theorem falsy_secret_is_backfilled_from_environment:
  assumes "self_config s = None"
    and "py_or (env x ''KEY_VAULT_URL'') (key_vault_url s) = Some url" and "url \<noteq> []"
    and "open_session x url = Inr client"
    and "client (secret_name g) = Inr v" and "\<not> truthy v"
  shows "\<exists>cfg s'. load_config_from_vault x s = (Inr cfg, s')
                  \<and> field_of cfg g = env_value (env x) g"
  using assms
  by (simp add: load_config_session_opens vault_config_field try_get_secret_def py_or_def)

theorem falsy_secret_is_backfilled_from_environment_witness:
  "\<exists>cfg s'. load_config_from_vault
              (world scenario_env (reachable (serving ''AzureOpenAiVersion'' (Some '''') stored_secrets)))
              (init scenario_env) = (Inr cfg, s')
           \<and> field_of cfg ModelVersion = Some ''2024-02-01''"
proof -
  let ?client = "serving ''AzureOpenAiVersion'' (Some '''') stored_secrets"
  let ?x = "world scenario_env (reachable ?client)"
  have fresh: "self_config (init scenario_env) = None"
    by (simp add: init_def)
  have url: "py_or (env ?x ''KEY_VAULT_URL'') (key_vault_url (init scenario_env))
               = Some default_key_vault_url"
    by (simp add: init_def world_def scenario_env_def py_or_def default_key_vault_url_def)
  have nonempty: "default_key_vault_url \<noteq> []"
    by (simp add: default_key_vault_url_def)
  have session: "open_session ?x default_key_vault_url = Inr ?client"
    by (simp add: world_def reachable_def)
  have fetched: "?client (secret_name ModelVersion) = Inr (Some '''')"
    by (simp add: serving_def)
  have falsy: "\<not> truthy (Some '''')"
    by simp
  from falsy_secret_is_backfilled_from_environment [OF fresh url nonempty session fetched falsy]
  show ?thesis
    by (simp add: world_def scenario_env_def)
qed

text \<open>
  Claim C4, as the code has it. When the session opens and exactly one fetch fails,
  all four fetches are attempted after the session is opened and nothing else is
  contacted; the failed field is its environment value; each other field is the
  fetched value when that value is non-empty, and its environment value when the
  fetched value is empty or absent.
\<close>

theorem single_fetch_failure_is_isolated:
  assumes "self_config s = None"
    and "py_or (env x ''KEY_VAULT_URL'') (key_vault_url s) = Some url" and "url \<noteq> []"
    and "open_session x url = Inr client"
    and "client (secret_name f) = Inl err"
    and "\<forall>g. g \<noteq> f \<longrightarrow> client (secret_name g) = Inr (fetched g)"
  shows "\<exists>cfg s'. load_config_from_vault x s = (Inr cfg, s')
           \<and> field_of cfg f = env_value (env x) f
           \<and> (\<forall>g. g \<noteq> f \<and> truthy (fetched g) \<longrightarrow> field_of cfg g = fetched g)
           \<and> (\<forall>g. g \<noteq> f \<and> \<not> truthy (fetched g) \<longrightarrow> field_of cfg g = env_value (env x) g)
           \<and> calls s' = calls s @ [OpenSession url, GetSecret ''AzureLLMKey'',
                                     GetSecret ''AzureOpenAiBase'', GetSecret ''AzureOpenAiVersion'',
                                     GetSecret ''AzureOpenAiDeployment'']"
  using assms
  by (simp add: load_config_session_opens vault_config_field try_get_secret_def py_or_def
                vault_calls_def)

theorem single_fetch_failure_is_isolated_witness:
  "\<exists>cfg s'. load_config_from_vault
              (world full_env (reachable (failing ''AzureLLMKey'' stored_secrets)))
              (init full_env) = (Inr cfg, s')
           \<and> field_of cfg ApiKey = Some ''env-key''
           \<and> field_of cfg ApiBase = Some ''https://vault''
           \<and> field_of cfg ModelVersion = Some ''2023-05-15''
           \<and> field_of cfg Deployment = Some ''vault-deployment''
           \<and> calls s' = [OpenSession default_key_vault_url, GetSecret ''AzureLLMKey'',
                          GetSecret ''AzureOpenAiBase'', GetSecret ''AzureOpenAiVersion'',
                          GetSecret ''AzureOpenAiDeployment'']"
proof -
  let ?client = "failing ''AzureLLMKey'' stored_secrets"
  let ?x = "world full_env (reachable ?client)"
  let ?fetched = "\<lambda>g. case stored_secrets (secret_name g) of Inr v \<Rightarrow> v | Inl e \<Rightarrow> None"
  have fresh: "self_config (init full_env) = None"
    by (simp add: init_def)
  have url: "py_or (env ?x ''KEY_VAULT_URL'') (key_vault_url (init full_env))
               = Some default_key_vault_url"
    by (simp add: init_def world_def full_env_def py_or_def default_key_vault_url_def)
  have nonempty: "default_key_vault_url \<noteq> []"
    by (simp add: default_key_vault_url_def)
  have session: "open_session ?x default_key_vault_url = Inr ?client"
    by (simp add: world_def reachable_def)
  have failed: "?client (secret_name ApiKey)
                  = Inl (PyExn ''ResourceNotFoundError'' ''secret not found'' None)"
    by (simp add: failing_def)
  have others: "\<forall>g. g \<noteq> ApiKey \<longrightarrow> ?client (secret_name g) = Inr (?fetched g)"
  proof (intro allI impI)
    fix g :: field
    assume "g \<noteq> ApiKey"
    then show "?client (secret_name g) = Inr (?fetched g)"
      by (cases g) (simp_all add: failing_def stored_secrets_def)
  qed
  from single_fetch_failure_is_isolated [OF fresh url nonempty session failed others]
  obtain cfg s' where r: "load_config_from_vault ?x (init full_env) = (Inr cfg, s')"
    and k: "field_of cfg ApiKey = env_value (env ?x) ApiKey"
    and t: "\<forall>g. g \<noteq> ApiKey \<and> truthy (?fetched g) \<longrightarrow> field_of cfg g = ?fetched g"
    and c: "calls s' = calls (init full_env) @ [OpenSession default_key_vault_url,
              GetSecret ''AzureLLMKey'', GetSecret ''AzureOpenAiBase'',
              GetSecret ''AzureOpenAiVersion'', GetSecret ''AzureOpenAiDeployment'']"
    by blast
  from spec [OF t, of ApiBase] have "field_of cfg ApiBase = ?fetched ApiBase"
    by (simp add: stored_secrets_def)
  moreover from spec [OF t, of ModelVersion] have "field_of cfg ModelVersion = ?fetched ModelVersion"
    by (simp add: stored_secrets_def)
  moreover from spec [OF t, of Deployment] have "field_of cfg Deployment = ?fetched Deployment"
    by (simp add: stored_secrets_def)
  ultimately show ?thesis
    using r k c by (simp add: stored_secrets_def world_def full_env_def init_def)
qed

text \<open>
  Claim C4 as stated fails: with the key's fetch failing and the base stored as the
  empty string, the resolved base is the environment's, not the fetched value, so two
  fields are back-filled.
\<close>

theorem single_fetch_failure_counterexample:
  "failing ''AzureLLMKey'' (serving ''AzureOpenAiBase'' (Some '''') stored_secrets) ''AzureLLMKey''
     = Inl (PyExn ''ResourceNotFoundError'' ''secret not found'' None)
   \<and> failing ''AzureLLMKey'' (serving ''AzureOpenAiBase'' (Some '''') stored_secrets) ''AzureOpenAiBase''
       = Inr (Some '''')
   \<and> failing ''AzureLLMKey'' (serving ''AzureOpenAiBase'' (Some '''') stored_secrets) ''AzureOpenAiVersion''
       = Inr (Some ''2023-05-15'')
   \<and> failing ''AzureLLMKey'' (serving ''AzureOpenAiBase'' (Some '''') stored_secrets) ''AzureOpenAiDeployment''
       = Inr (Some ''vault-deployment'')
   \<and> fst (load_config_from_vault
            (world full_env
               (reachable (failing ''AzureLLMKey'' (serving ''AzureOpenAiBase'' (Some '''') stored_secrets))))
            (init full_env))
       = Inr \<lparr> api_key = Some ''env-key'', api_base = Some ''https://env'',
               model_version = Some ''2023-05-15'', deployment = Some ''vault-deployment'' \<rparr>"
  by (simp add: load_config_from_vault_def Let_def init_def world_def reachable_def full_env_def
                py_or_def default_key_vault_url_def vault_config_def try_get_secret_def
                failing_def serving_def stored_secrets_def env_get_default_def)

section \<open>The connection\<close>

lemma missing_keys:
  "filter (\<lambda>k. \<not> truthy (config_get c k)) required_keys =
     (if truthy (api_key c) then [] else [''api_key'']) @
     (if truthy (api_base c) then [] else [''api_base'']) @
     (if truthy (deployment c) then [] else [''deployment''])"
  by (simp add: required_keys_def config_get_def)

lemma missing_keys_empty:
  "filter (\<lambda>k. \<not> truthy (config_get c k)) required_keys = [] \<longleftrightarrow> usable c"
  by (simp add: missing_keys usable_def)

lemma get_client_cached: "self_client s = Some conn \<Longrightarrow> get_client x s = (Inr conn, s)"
  by (simp add: get_client_def)

lemma get_client_usable:
  "self_client s = None \<Longrightarrow> load_config_from_vault x s = (Inr c, s1) \<Longrightarrow> usable c \<Longrightarrow>
   get_client x s = (Inr (AzureOpenAI c), s1\<lparr>self_client := Some (AzureOpenAI c)\<rparr>)"
  by (simp add: get_client_def Let_def missing_keys_empty)

lemma get_client_unusable:
  "self_client s = None \<Longrightarrow> load_config_from_vault x s = (Inr c, s1) \<Longrightarrow> \<not> usable c \<Longrightarrow>
   get_client x s =
     (Inl (ValueError (missing_config_message
             (filter (\<lambda>k. \<not> truthy (config_get c k)) required_keys))), s1)"
  by (simp add: get_client_def Let_def missing_keys_empty)

lemma client_ok_init: "client_ok (init e)"
  by (simp add: client_ok_def init_def)

lemma client_ok_load: "client_ok s \<Longrightarrow> client_ok (snd (load_config_from_vault x s))"
  by (auto simp: client_ok_def load_config_from_vault_def Let_def split: option.splits sum.splits)

lemma client_ok_get_client: "client_ok s \<Longrightarrow> client_ok (snd (get_client x s))"
proof (cases "self_client s")
  case (Some conn)
  assume "client_ok s"
  with Some show ?thesis by (simp add: get_client_cached)
next
  case None
  obtain c s1 where l: "load_config_from_vault x s = (Inr c, s1)"
    and c: "self_config s1 = Some c" and n: "self_client s1 = self_client s"
    using load_config_total [of x s] by blast
  show ?thesis
  proof (cases "usable c")
    case True
    with None l c show ?thesis
      by (simp add: get_client_usable client_ok_def)
  next
    case False
    with None l n show ?thesis
      by (simp add: get_client_unusable client_ok_def)
  qed
qed

text \<open>
  Claim C1, as the code has it. On an instance in a consistent state,
  \<^verbatim>\<open>_get_client\<close> raises exactly when the key, the base or the deployment of the
  resolved bundle is empty or absent. The error is a \<^verbatim>\<open>ValueError\<close> whose message lists
  exactly the missing fields, in the order key, base, deployment and separated by
  commas, followed by fixed guidance that names the three environment variables and
  \<^verbatim>\<open>KEY_VAULT_URL\<close> and mentions Azure Key Vault. When all three are present the
  connection bound to the bundle's base, key and version is returned.
\<close>

theorem get_client_raises_iff_required_field_missing:
  assumes "client_ok s" and "load_config_from_vault x s = (Inr c, s1)"
  shows "((\<exists>e. fst (get_client x s) = Inl e)
            \<longleftrightarrow> \<not> (truthy (api_key c) \<and> truthy (api_base c) \<and> truthy (deployment c)))
       \<and> (truthy (api_key c) \<and> truthy (api_base c) \<and> truthy (deployment c) \<longrightarrow>
            fst (get_client x s) =
              Inr \<lparr> azure_endpoint = api_base c, conn_api_key = api_key c,
                    api_version = model_version c \<rparr>)
       \<and> (\<not> (truthy (api_key c) \<and> truthy (api_base c) \<and> truthy (deployment c)) \<longrightarrow>
            fst (get_client x s) =
              Inl (PyExn ''ValueError''
                    (''Missing required Azure OpenAI config: '' @
                     join '', '' ((if truthy (api_key c) then [] else [''api_key'']) @
                                  (if truthy (api_base c) then [] else [''api_base'']) @
                                  (if truthy (deployment c) then [] else [''deployment''])) @
                     ''. Provide these via environment variables (AZURE_OPENAI_API_KEY, AZURE_OPENAI_ENDPOINT, AZURE_OPENAI_DEPLOYMENT) or configure them in Azure Key Vault and set KEY_VAULT_URL.'')
                    None))"
proof (cases "self_client s")
  case None
  show ?thesis
  proof (cases "usable c")
    case True
    with None assms(2) show ?thesis
      by (simp add: get_client_usable usable_def AzureOpenAI_def)
  next
    case False
    from get_client_unusable [OF None assms(2) False] False show ?thesis
      by (simp add: usable_def missing_keys ValueError_def missing_config_message_def)
  qed
next
  case (Some conn)
  with assms(1) obtain c' where c': "self_config s = Some c'" "usable c'" "conn = AzureOpenAI c'"
    by (auto simp: client_ok_def split: option.splits)
  with assms(2) have "c' = c"
    by (simp add: load_config_cached)
  with c' Some show ?thesis
    by (simp add: get_client_cached usable_def AzureOpenAI_def)
qed

theorem get_client_raises_iff_required_field_missing_witness:
  "fst (get_client (world no_deployment_env unreachable_store) (init no_deployment_env)) =
     Inl (PyExn ''ValueError''
           ''Missing required Azure OpenAI config: deployment. Provide these via environment variables (AZURE_OPENAI_API_KEY, AZURE_OPENAI_ENDPOINT, AZURE_OPENAI_DEPLOYMENT) or configure them in Azure Key Vault and set KEY_VAULT_URL.''
           None)
   \<and> fst (get_client (world scenario_env unreachable_store) (init scenario_env)) =
       Inr \<lparr> azure_endpoint = Some ''https://x'', conn_api_key = Some ''k'',
             api_version = Some ''2024-02-01'' \<rparr>"
proof -
  let ?c = "\<lparr> api_key = Some ''k'', api_base = Some ''https://x'',
              model_version = Some ''2024-02-01'', deployment = None \<rparr>"
  let ?d = "\<lparr> api_key = Some ''k'', api_base = Some ''https://x'',
              model_version = Some ''2024-02-01'', deployment = Some ''gpt-4'' \<rparr>"
  have l1: "load_config_from_vault (world no_deployment_env unreachable_store) (init no_deployment_env)
          = (Inr ?c, (init no_deployment_env)\<lparr>self_config := Some ?c,
                        calls := calls (init no_deployment_env) @ [OpenSession default_key_vault_url]\<rparr>)"
    by (simp add: load_config_from_vault_def Let_def init_def world_def no_deployment_env_def
                  unreachable_store_def py_or_def default_key_vault_url_def env_config_def
                  env_get_default_def)
  have l2: "load_config_from_vault (world scenario_env unreachable_store) (init scenario_env)
          = (Inr ?d, (init scenario_env)\<lparr>self_config := Some ?d,
                        calls := calls (init scenario_env) @ [OpenSession default_key_vault_url]\<rparr>)"
    by (simp add: load_config_from_vault_def Let_def init_def world_def scenario_env_def
                  unreachable_store_def py_or_def default_key_vault_url_def env_config_def
                  env_get_default_def)
  from get_client_raises_iff_required_field_missing [OF client_ok_init l1]
       get_client_raises_iff_required_field_missing [OF client_ok_init l2]
  show ?thesis by simp
qed

text \<open>
  Claim C1 as stated fails on the guidance: the message raised for a missing deployment
  names none of the four secrets.
\<close>

theorem missing_config_message_counterexample:
  "fst (get_client (world no_deployment_env unreachable_store) (init no_deployment_env))
     = Inl (ValueError (missing_config_message [''deployment'']))
   \<and> \<not> str_contains ''AzureLLMKey'' (missing_config_message [''deployment''])
   \<and> \<not> str_contains ''AzureOpenAiBase'' (missing_config_message [''deployment''])
   \<and> \<not> str_contains ''AzureOpenAiVersion'' (missing_config_message [''deployment''])
   \<and> \<not> str_contains ''AzureOpenAiDeployment'' (missing_config_message [''deployment''])"
  by (simp add: get_client_def load_config_from_vault_def Let_def init_def world_def
                no_deployment_env_def unreachable_store_def py_or_def default_key_vault_url_def
                env_config_def env_get_default_def required_keys_def config_get_def
                missing_config_message_def)

text \<open>
  Claim C5, as the code has it. When the resolved location, which is the
  \<^verbatim>\<open>KEY_VAULT_URL\<close> variable or else the instance's \<^verbatim>\<open>key_vault_url\<close> attribute, is
  empty or absent, the first resolution makes no outside call and returns the bundle
  of the four environment variables, the version being \<^verbatim>\<open>2024-02-01\<close> when its
  variable is unset; and when the key, base and deployment variables are non-empty,
  obtaining the connection succeeds.
\<close>

theorem no_location_resolves_from_environment:
  assumes "self_config s = None" and "self_client s = None"
    and "\<not> truthy (py_or (env x ''KEY_VAULT_URL'') (key_vault_url s))"
  shows "fst (load_config_from_vault x s) =
           Inr \<lparr> api_key = env x ''AZURE_OPENAI_API_KEY'',
                 api_base = env x ''AZURE_OPENAI_ENDPOINT'',
                 model_version = Some (case env x ''AZURE_OPENAI_API_VERSION'' of
                                         None \<Rightarrow> ''2024-02-01'' | Some v \<Rightarrow> v),
                 deployment = env x ''AZURE_OPENAI_DEPLOYMENT'' \<rparr>
       \<and> calls (snd (load_config_from_vault x s)) = calls s
       \<and> (truthy (env x ''AZURE_OPENAI_API_KEY'') \<and> truthy (env x ''AZURE_OPENAI_ENDPOINT'')
            \<and> truthy (env x ''AZURE_OPENAI_DEPLOYMENT'') \<longrightarrow>
          fst (get_client x s) =
            Inr \<lparr> azure_endpoint = env x ''AZURE_OPENAI_ENDPOINT'',
                  conn_api_key = env x ''AZURE_OPENAI_API_KEY'',
                  api_version = Some (case env x ''AZURE_OPENAI_API_VERSION'' of
                                        None \<Rightarrow> ''2024-02-01'' | Some v \<Rightarrow> v) \<rparr>
          \<and> calls (snd (get_client x s)) = calls s)"
proof -
  note l = load_config_no_location [OF assms(1) assms(3)]
  have "usable (env_config (env x))"
    if "truthy (env x ''AZURE_OPENAI_API_KEY'')" "truthy (env x ''AZURE_OPENAI_ENDPOINT'')"
       "truthy (env x ''AZURE_OPENAI_DEPLOYMENT'')"
    using that by (simp add: usable_def env_config_def)
  then show ?thesis
    using l get_client_usable [OF assms(2) l]
    by (auto simp: env_config_def env_get_default_def AzureOpenAI_def split: option.splits)
qed

theorem no_location_resolves_from_environment_witness:
  "fst (load_config_from_vault (world scenario_env (reachable stored_secrets))
          (without_location (init scenario_env))) =
     Inr \<lparr> api_key = Some ''k'', api_base = Some ''https://x'',
           model_version = Some ''2024-02-01'', deployment = Some ''gpt-4'' \<rparr>
   \<and> calls (snd (load_config_from_vault (world scenario_env (reachable stored_secrets))
                   (without_location (init scenario_env)))) = []
   \<and> fst (get_client (world scenario_env (reachable stored_secrets))
            (without_location (init scenario_env))) =
       Inr \<lparr> azure_endpoint = Some ''https://x'', conn_api_key = Some ''k'',
             api_version = Some ''2024-02-01'' \<rparr>"
proof -
  let ?x = "world scenario_env (reachable stored_secrets)"
  let ?s = "without_location (init scenario_env)"
  have fresh: "self_config ?s = None" and unconnected: "self_client ?s = None"
    by (simp_all add: without_location_def init_def)
  have nowhere: "\<not> truthy (py_or (env ?x ''KEY_VAULT_URL'') (key_vault_url ?s))"
    by (simp add: without_location_def init_def world_def scenario_env_def py_or_def)
  from no_location_resolves_from_environment [OF fresh unconnected nowhere]
  show ?thesis
    by (simp add: world_def scenario_env_def without_location_def init_def)
qed

text \<open>
  Claim C5 as stated fails: with the three variables of the scenario set and no
  \<^verbatim>\<open>KEY_VAULT_URL\<close>, the constructor gives the instance the built-in location, the
  first resolution opens a session there and fetches the four secrets, and the bundle
  holds what the store serves.
\<close>

theorem no_override_counterexample:
  "scenario_env ''KEY_VAULT_URL'' = None
   \<and> key_vault_url (init scenario_env) = Some ''https://KV-fs-to-autogen.vault.azure.net/''
   \<and> fst (load_config_from_vault (world scenario_env (reachable stored_secrets)) (init scenario_env)) =
       Inr \<lparr> api_key = Some ''vault-key'', api_base = Some ''https://vault'',
             model_version = Some ''2023-05-15'', deployment = Some ''vault-deployment'' \<rparr>
   \<and> calls (snd (load_config_from_vault (world scenario_env (reachable stored_secrets))
                   (init scenario_env))) =
       [OpenSession ''https://KV-fs-to-autogen.vault.azure.net/'', GetSecret ''AzureLLMKey'',
        GetSecret ''AzureOpenAiBase'', GetSecret ''AzureOpenAiVersion'',
        GetSecret ''AzureOpenAiDeployment'']"
  by (simp add: load_config_from_vault_def Let_def init_def world_def reachable_def
                scenario_env_def py_or_def default_key_vault_url_def vault_config_def
                try_get_secret_def stored_secrets_def env_get_default_def vault_calls_def)

section \<open>Token accounting\<close>

text \<open>
  Claim C7. For every text, \<^verbatim>\<open>count_tokens\<close> returns the number of tokens of the
  registered encoding when tokenization succeeds, and the length of the text divided
  by four, rounded down, when looking up the encoding or encoding the text fails. It
  returns an integer in every case. For the empty text the result is zero when
  tokenization fails, and zero when it succeeds with the empty token list, which is
  what an encoding gives for the empty text.
\<close>

theorem count_tokens_exact_or_quarter_length:
  "(encoding_for_model x m = Inr enc \<and> enc t = Inr toks \<longrightarrow>
      count_tokens x t m = int (length toks))
   \<and> (encoding_for_model x m = Inl e \<longrightarrow> count_tokens x t m = int (length t) div 4)
   \<and> (encoding_for_model x m = Inr enc \<and> enc t = Inl e \<longrightarrow>
        count_tokens x t m = int (length t) div 4)
   \<and> (encoding_for_model x m = Inl e \<longrightarrow> count_tokens x '''' m = 0)
   \<and> (encoding_for_model x m = Inr enc \<and> enc '''' = Inl e \<longrightarrow> count_tokens x '''' m = 0)
   \<and> (encoding_for_model x m = Inr enc \<and> enc '''' = Inr [] \<longrightarrow> count_tokens x '''' m = 0)"
  by (simp add: count_tokens_def)

theorem count_tokens_exact_or_quarter_length_witness:
  "count_tokens (world scenario_env unreachable_store) ''Strategy and Resources'' default_model = 5
   \<and> count_tokens (world scenario_env unreachable_store) '''' default_model = 0
   \<and> count_tokens ((world scenario_env unreachable_store)\<lparr>encoding_for_model := char_tokenizer\<rparr>)
        ''Strategy'' default_model = 8
   \<and> count_tokens ((world scenario_env unreachable_store)\<lparr>encoding_for_model := char_tokenizer\<rparr>)
        '''' default_model = 0"
proof -
  let ?x = "world scenario_env unreachable_store"
  let ?y = "?x\<lparr>encoding_for_model := char_tokenizer\<rparr>"
  let ?e = "PyExn ''KeyError'' ''could not map model to a tokeniser'' None"
  let ?enc = "\<lambda>text. Inr (map of_char text) :: pyexn + nat list"
  have f: "encoding_for_model ?x default_model = Inl ?e"
    by (simp add: world_def no_tokenizer_def)
  have g: "encoding_for_model ?y default_model = Inr ?enc"
    by (simp add: char_tokenizer_def)
  from count_tokens_exact_or_quarter_length
         [of ?x default_model ?enc "''Strategy and Resources''" "[]" ?e] f
  have a: "count_tokens ?x ''Strategy and Resources'' default_model = 5"
       and b: "count_tokens ?x '''' default_model = 0"
    by simp_all
  from count_tokens_exact_or_quarter_length
         [of ?y default_model ?enc "''Strategy''" "map of_char ''Strategy''" ?e] g
  have c: "count_tokens ?y ''Strategy'' default_model = 8"
       and d: "count_tokens ?y '''' default_model = 0"
    by simp_all
  from a b c d show ?thesis by simp
qed

section \<open>The capability repository\<close>

lemma delete_capability_true_iff_present:
  "fst (delete_capability tbl i) \<longleftrightarrow> (\<exists>c \<in> set tbl. cap_id c = i)"
  by (auto simp: delete_capability_def Let_def filter_empty_conv)

lemma fetch_after_delete:
  "fetch_by_id (snd (delete_capability tbl i)) i = Inr None"
  "\<forall>c \<in> set (fetch_all_capabilities (snd (delete_capability tbl i))). cap_id c \<noteq> i"
  by (auto simp: delete_capability_def fetch_by_id_def fetch_all_capabilities_def Let_def
           filter_empty_conv split: list.splits)

lemma delete_capability_removes_rows:
  "\<forall>c \<in> set (snd (delete_capability tbl i)). cap_id c \<noteq> i"
  by (simp add: delete_capability_def Let_def)

text \<open>
  Claim C9 does not hold of the code: deleting the capability with id 1 from a table
  that holds it returns true, and the row is then gone from the table itself, not
  kept and marked.
\<close>

theorem delete_capability_removes_the_row:
  "fetch_all_capabilities one_capability = one_capability
   \<and> delete_capability one_capability 1 = (True, [])"
  by (simp add: delete_capability_def fetch_all_capabilities_def one_capability_def)

section \<open>The system prompt\<close>

lemma fstring_eval_text:
  "CHR ''{'' \<notin> set p \<Longrightarrow> CHR ''}'' \<notin> set p \<Longrightarrow>
   fstring_eval out [] (p @ r) = fstring_eval (rev p @ out) [] r"
  by (induction p arbitrary: out) auto

text \<open>
  The first eighteen lines of the prompt hold no brace. The next ten open the first
  few-shot example: a field for \<^verbatim>\<open>"Capability"\<close>, inside its format spec a field for
  \<^verbatim>\<open>"Core Process"\<close>, and inside that one's format spec a field for \<^verbatim>\<open>"Subprocess"\<close>,
  whose format spec holds no field. This innermost field is the first to be
  formatted, and its format spec is none that a string takes.
\<close>

lemma prompt_head_is_text:
  "CHR ''{'' \<notin> set (''\<newline>'' @ concat (map (\<lambda>l. l @ ''\<newline>'') (take 18 system_prompt_lines)))"
  "CHR ''}'' \<notin> set (''\<newline>'' @ concat (map (\<lambda>l. l @ ''\<newline>'') (take 18 system_prompt_lines)))"
  by (simp_all add: system_prompt_lines_def)

lemma subprocess_format_spec_is_refused:
  "format_str ''Subprocess'' subprocess_format_spec =
     Inl (ValueError (''Invalid format specifier '' @ quote subprocess_format_spec @
                      '' for object of type '' @ quote ''str''))"
  by (simp add: format_str_def parse_format_spec_def subprocess_format_spec_def
                is_alignment_token_def is_sign_element_def take_flag_def is_digit_def
                digits_value_def ssize_max_def Let_def)

lemma prompt_example_raises:
  "fstring_eval out []
     (concat (map (\<lambda>l. l @ ''\<newline>'') (take 10 (drop 18 system_prompt_lines))) @ r)
   = Inl (ValueError (''Invalid format specifier '' @ quote subprocess_format_spec @
                      '' for object of type '' @ quote ''str''))"
proof -
  have "fstring_eval out []
     (concat (map (\<lambda>l. l @ ''\<newline>'') (take 10 (drop 18 system_prompt_lines))) @ r)
   = format_str ''Subprocess'' subprocess_format_spec"
    by (simp add: system_prompt_lines_def in_literal_def close_field_def eval_literal_def
                  strip_def is_space_def subprocess_format_spec_is_refused
                  subprocess_format_spec_def [symmetric])
  then show ?thesis
    by (simp only: subprocess_format_spec_is_refused)
qed

lemma system_prompt_split:
  "system_prompt_source =
     (''\<newline>'' @ concat (map (\<lambda>l. l @ ''\<newline>'') (take 18 system_prompt_lines))) @
     (concat (map (\<lambda>l. l @ ''\<newline>'') (take n (drop 18 system_prompt_lines))) @
      concat (map (\<lambda>l. l @ ''\<newline>'') (drop n (drop 18 system_prompt_lines))))"
proof -
  have "system_prompt_lines =
          take 18 system_prompt_lines @ take n (drop 18 system_prompt_lines) @
          drop n (drop 18 system_prompt_lines)"
    by (simp only: append_take_drop_id)
  then have "concat (map (\<lambda>l. l @ ''\<newline>'') system_prompt_lines) =
          concat (map (\<lambda>l. l @ ''\<newline>'')
            (take 18 system_prompt_lines @ take n (drop 18 system_prompt_lines) @
             drop n (drop 18 system_prompt_lines)))"
    by (rule arg_cong)
  then show ?thesis
    by (simp only: system_prompt_source_def map_append concat_append append_assoc)
qed

lemma system_prompt_raises:
  "system_prompt =
     Inl (ValueError (''Invalid format specifier '' @ quote subprocess_format_spec @
                      '' for object of type '' @ quote ''str''))"
  unfolding system_prompt_def fstring_def
  by (subst system_prompt_split [of 10])
     (simp only: fstring_eval_text [OF prompt_head_is_text] prompt_example_raises)

text \<open>
  Every field of the prompt is closed, no brace is stray, and the fields nest three
  deep. CPython up to 3.11 therefore refuses the module when it compiles it, and no
  function of the module exists there; from 3.12 on the literal is compiled, and
  evaluated when \<^verbatim>\<open>generate_content\<close> runs.
\<close>

lemma foldl_concat_map:
  "foldl f s (concat (map g xs)) = foldl (\<lambda>s x. foldl f s (g x)) s xs"
  by (induction xs arbitrary: s) simp_all

lemma prompt_fields_nest_three_deep:
  "scan_literal system_prompt_source =
     \<lparr>pending = None, open_fields = [], deepest = 3, stray = False\<rparr>"
  by (simp add: scan_literal_def system_prompt_source_def foldl_concat_map
                system_prompt_lines_def scan_step_def)

lemma prompt_levels: "fstring_levels system_prompt_source = 3"
  by (simp add: fstring_levels_def prompt_fields_nest_three_deep)

section \<open>Memoization and the history of outside calls\<close>

lemma load_config_idempotent:
  "load_config_from_vault x s = (r, s1) \<Longrightarrow> load_config_from_vault y s1 = (r, s1)"
  using load_config_total [of x s] by (auto simp: load_config_cached)

lemma get_client_idempotent:
  "get_client x s = (Inr conn, s1) \<Longrightarrow> get_client y s1 = (Inr conn, s1)"
  by (auto simp: get_client_def Let_def split: option.splits prod.splits sum.splits if_splits)

lemma get_client_after_load:
  assumes "client_ok s"
  shows "get_client x (snd (load_config_from_vault x s)) = get_client x s"
proof (cases "self_client s")
  case (Some conn)
  with assms obtain c where "self_config s = Some c"
    by (auto simp: client_ok_def split: option.splits)
  then show ?thesis by (simp add: load_config_cached)
next
  case None
  obtain c s1 where l: "load_config_from_vault x s = (Inr c, s1)"
    and n: "self_client s1 = self_client s"
    using load_config_total [of x s] by blast
  from l have "load_config_from_vault x s1 = (Inr c, s1)"
    by (rule load_config_idempotent)
  with l n None show ?thesis
    by (simp add: get_client_def)
qed

lemma load_config_sessions:
  "sessions (calls (snd (load_config_from_vault x s))) \<le> sessions (calls s) + 1"
  "self_config s \<noteq> None \<Longrightarrow> snd (load_config_from_vault x s) = s"
  "completions (calls (snd (load_config_from_vault x s))) = completions (calls s)"
  "self_config (snd (load_config_from_vault x s)) \<noteq> None"
  by (auto simp: load_config_from_vault_def Let_def sessions_def completions_def vault_calls_def
           split: option.splits sum.splits)

lemma get_client_calls:
  "self_config s \<noteq> None \<Longrightarrow> calls (snd (get_client x s)) = calls s"
  "self_config s \<noteq> None \<Longrightarrow> self_config (snd (get_client x s)) \<noteq> None"
  by (auto simp: get_client_def load_config_cached Let_def split: option.splits)

text \<open>
  The state a call of \<^verbatim>\<open>generate_content\<close> leaves: that of resolving and connecting,
  with at most one chat completion added to the history.
\<close>

lemma generate_content_body_state:
  "snd (generate_content_body x p cs s) = snd (get_client x (snd (load_config_from_vault x s)))
   \<or> snd (generate_content_body x p cs s) =
       (snd (get_client x (snd (load_config_from_vault x s))))
         \<lparr>calls := calls (snd (get_client x (snd (load_config_from_vault x s)))) @ [ChatCompletion]\<rparr>"
proof -
  obtain c s1 where l: "load_config_from_vault x s = (Inr c, s1)"
    using load_config_total [of x s] by blast
  obtain r s2 where g: "get_client x s1 = (r, s2)"
    by (cases "get_client x s1")
  from l g show ?thesis
    by (simp add: generate_content_body_def request_completion_def Let_def
             split: sum.splits list.splits option.splits)
qed

lemma generate_content_state:
  "snd (generate_content x p cs s) = snd (generate_content_body x p cs s)"
  by (simp add: generate_content_def split: prod.splits sum.splits)

lemma generate_content_history:
  "sessions (calls (snd (generate_content x p cs s))) \<le> sessions (calls s) + 1"
  "self_config s \<noteq> None \<Longrightarrow>
     sessions (calls (snd (generate_content x p cs s))) = sessions (calls s)"
  "self_config (snd (generate_content x p cs s)) \<noteq> None"
  "completions (calls (snd (generate_content x p cs s))) \<le> completions (calls s) + 1"
proof -
  let ?s1 = "snd (load_config_from_vault x s)"
  let ?s2 = "snd (get_client x ?s1)"
  have c1: "self_config ?s1 \<noteq> None"
    by (rule load_config_sessions(4))
  then have k: "calls ?s2 = calls ?s1" and c2: "self_config ?s2 \<noteq> None"
    by (simp_all add: get_client_calls)
  have st: "snd (generate_content x p cs s) = ?s2
            \<or> snd (generate_content x p cs s) = ?s2\<lparr>calls := calls ?s2 @ [ChatCompletion]\<rparr>"
    using generate_content_body_state [of x p cs s] by (simp add: generate_content_state)
  then have se: "sessions (calls (snd (generate_content x p cs s))) = sessions (calls ?s1)"
    using k by (auto simp: sessions_def)
  with load_config_sessions(1) [of x s]
  show "sessions (calls (snd (generate_content x p cs s))) \<le> sessions (calls s) + 1"
    by simp
  show "sessions (calls (snd (generate_content x p cs s))) = sessions (calls s)"
    if "self_config s \<noteq> None"
    using se load_config_sessions(2) [OF that, of x] by simp
  from st c2 show "self_config (snd (generate_content x p cs s)) \<noteq> None"
    by auto
  from st k load_config_sessions(3) [of x s]
  show "completions (calls (snd (generate_content x p cs s))) \<le> completions (calls s) + 1"
    by (auto simp: completions_def)
qed

text \<open>
  Claim C8. Resolution and connection are memoized on the instance. A resolution that
  has returned has stored its bundle, and a connection that has been obtained is
  stored on the instance; a later call, whatever the environment and the store have
  become, returns the stored bundle, respectively the stored connection, and leaves
  the instance and the history of outside calls as they are. Two calls of
  \<^verbatim>\<open>generate_content\<close> on one instance open at most one session, and the second opens
  none.
\<close>

theorem resolution_and_connection_are_memoized:
  "(load_config_from_vault x s = (r, s1) \<longrightarrow>
      (\<exists>c. r = Inr c \<and> self_config s1 = Some c) \<and> load_config_from_vault y s1 = (r, s1))
   \<and> (self_config s = Some c \<longrightarrow> load_config_from_vault y s = (Inr c, s))
   \<and> (get_client x s = (Inr conn, s2) \<longrightarrow>
        self_client s2 = Some conn \<and> get_client y s2 = (Inr conn, s2))
   \<and> (self_client s = Some conn \<longrightarrow> get_client y s = (Inr conn, s))
   \<and> sessions (calls (snd (generate_content y q ds (snd (generate_content x p cs s)))))
       = sessions (calls (snd (generate_content x p cs s)))
   \<and> sessions (calls (snd (generate_content y q ds (snd (generate_content x p cs s)))))
       \<le> sessions (calls s) + 1
   \<and> sessions (calls (snd (generate_content y q ds (snd (generate_content x p cs (init e))))))
       \<le> 1"
proof -
  let ?t = "snd (generate_content x p cs s)"
  have a: "sessions (calls (snd (generate_content y q ds ?t))) = sessions (calls ?t)"
    by (rule generate_content_history(2)) (rule generate_content_history(3))
  have b: "sessions (calls ?t) \<le> sessions (calls s) + 1"
    by (rule generate_content_history(1))
  let ?u = "snd (generate_content x p cs (init e))"
  have "sessions (calls (snd (generate_content y q ds ?u))) = sessions (calls ?u)"
    by (rule generate_content_history(2)) (rule generate_content_history(3))
  moreover have "sessions (calls ?u) \<le> sessions (calls (init e)) + 1"
    by (rule generate_content_history(1))
  ultimately have c: "sessions (calls (snd (generate_content y q ds ?u))) \<le> 1"
    by (simp add: init_def sessions_def)
  have d: "(\<exists>c. r = Inr c \<and> self_config s1 = Some c) \<and> load_config_from_vault y s1 = (r, s1)"
    if "load_config_from_vault x s = (r, s1)"
    using that load_config_total [of x s] by (auto simp: load_config_cached)
  have f: "self_client s2 = Some conn \<and> get_client y s2 = (Inr conn, s2)"
    if "get_client x s = (Inr conn, s2)"
  proof -
    from that have "self_client s2 = Some conn"
      by (auto simp: get_client_def Let_def split: option.splits prod.splits sum.splits if_splits)
    then show ?thesis
      by (simp add: get_client_cached)
  qed
  from a b c d f show ?thesis
    by (simp add: load_config_cached get_client_cached)
qed

theorem resolution_and_connection_are_memoized_witness:
  "load_config_from_vault (world full_env unreachable_store)
     (snd (load_config_from_vault (world scenario_env (reachable stored_secrets)) (init scenario_env)))
   = load_config_from_vault (world scenario_env (reachable stored_secrets)) (init scenario_env)
   \<and> fst (load_config_from_vault (world full_env unreachable_store)
            (snd (load_config_from_vault (world scenario_env (reachable stored_secrets))
                    (init scenario_env))))
       = Inr \<lparr> api_key = Some ''vault-key'', api_base = Some ''https://vault'',
               model_version = Some ''2023-05-15'', deployment = Some ''vault-deployment'' \<rparr>
   \<and> self_client (snd (get_client (world scenario_env (reachable stored_secrets)) (init scenario_env)))
       = Some \<lparr> azure_endpoint = Some ''https://vault'', conn_api_key = Some ''vault-key'',
                api_version = Some ''2023-05-15'' \<rparr>
   \<and> get_client (world full_env unreachable_store)
          (snd (get_client (world scenario_env (reachable stored_secrets)) (init scenario_env)))
       = (Inr \<lparr> azure_endpoint = Some ''https://vault'', conn_api_key = Some ''vault-key'',
                api_version = Some ''2023-05-15'' \<rparr>,
          snd (get_client (world scenario_env (reachable stored_secrets)) (init scenario_env)))
   \<and> sessions (calls (snd (generate_content (world full_env unreachable_store) ''Performance & Assurance'' None
                  (snd (generate_content (world scenario_env (reachable stored_secrets))
                          ''Strategy & Resource Mobilization'' None (init scenario_env))))))
       \<le> 1"
proof -
  let ?x = "world scenario_env (reachable stored_secrets)"
  let ?y = "world full_env unreachable_store"
  let ?s = "init scenario_env"
  let ?c = "\<lparr> api_key = Some ''vault-key'', api_base = Some ''https://vault'',
              model_version = Some ''2023-05-15'', deployment = Some ''vault-deployment'' \<rparr>"
  let ?s1 = "?s\<lparr>self_config := Some ?c, calls := calls ?s @ vault_calls default_key_vault_url\<rparr>"
  let ?conn = "\<lparr> azure_endpoint = Some ''https://vault'', conn_api_key = Some ''vault-key'',
                 api_version = Some ''2023-05-15'' \<rparr>"
  have l: "load_config_from_vault ?x ?s = (Inr ?c, ?s1)"
    by (simp add: load_config_from_vault_def Let_def init_def world_def reachable_def
                  scenario_env_def py_or_def default_key_vault_url_def vault_config_def
                  try_get_secret_def stored_secrets_def env_get_default_def)
  have n: "self_client ?s = None"
    by (simp add: init_def)
  have u: "usable ?c"
    by (simp add: usable_def)
  have g: "get_client ?x ?s = (Inr ?conn, ?s1\<lparr>self_client := Some ?conn\<rparr>)"
    using get_client_usable [OF n l u] by (simp add: AzureOpenAI_def)
  from resolution_and_connection_are_memoized
         [where x = ?x and s = ?s and r = "Inr ?c" and ?s1.0 = ?s1 and y = ?y and conn = ?conn
            and c = ?c and ?s2.0 = "?s1\<lparr>self_client := Some ?conn\<rparr>" and e = scenario_env
            and p = "''Strategy & Resource Mobilization''" and cs = None
            and q = "''Performance & Assurance''" and ds = None]
       l g
  show ?thesis by simp
qed

section \<open>Failures of generation\<close>

lemma generate_content_wraps:
  "fst (generate_content_body x p cs s) = Inl e \<Longrightarrow>
   fst (generate_content x p cs s) =
     Inl (PyExn ''Exception'' (''Content generation failed: '' @ exn_str e) (Some e))"
  by (cases "generate_content_body x p cs s") (simp add: generate_content_def)

lemma generate_content_failure_is_wrapped:
  "fst (generate_content x p cs s) = Inl w \<Longrightarrow>
   \<exists>cause. w = PyExn ''Exception'' (''Content generation failed: '' @ exn_str cause) (Some cause)"
proof (cases "generate_content_body x p cs s")
  case (Pair r s')
  assume "fst (generate_content x p cs s) = Inl w"
  with Pair show ?thesis
    by (cases r) (auto simp: generate_content_def)
qed

lemma generate_content_body_config_error:
  assumes "client_ok s" and "fst (get_client x s) = Inl e"
  shows "fst (generate_content_body x p cs s) = Inl e"
proof -
  obtain c s1 where l: "load_config_from_vault x s = (Inr c, s1)"
    using load_config_total [of x s] by blast
  from get_client_after_load [OF assms(1), of x] l have "get_client x s1 = get_client x s"
    by simp
  moreover from assms(2) obtain s2 where "get_client x s = (Inl e, s2)"
    by (cases "get_client x s") simp
  ultimately show ?thesis
    using l by (simp add: generate_content_body_def)
qed

lemma generate_content_body_never_returns:
  "\<exists>e. fst (generate_content_body x p cs s) = Inl e"
proof -
  obtain c s1 where l: "load_config_from_vault x s = (Inr c, s1)"
    using load_config_total [of x s] by blast
  obtain r s2 where g: "get_client x s1 = (r, s2)"
    by (cases "get_client x s1")
  from l g show ?thesis
    by (cases r) (simp_all add: generate_content_body_def system_prompt_raises)
qed

lemma get_client_without_deployment:
  "fst (get_client (world no_deployment_env unreachable_store) (init no_deployment_env))
     = Inl (ValueError (missing_config_message [''deployment'']))"
  by (simp add: get_client_def load_config_from_vault_def Let_def init_def world_def
                no_deployment_env_def unreachable_store_def py_or_def default_key_vault_url_def
                env_config_def env_get_default_def required_keys_def config_get_def)

text \<open>
  Claim C2, as the code has it. When obtaining the connection fails inside
  \<^verbatim>\<open>generate_content\<close> because a required field is missing, the caller does not receive
  that error itself: the handler replaces it by a plain \<^verbatim>\<open>Exception\<close> whose message is
  \<^verbatim>\<open>Content generation failed: \<close> followed by the original message, raised while the
  original is being handled. Every failure of \<^verbatim>\<open>generate_content\<close> has this form, and
  a call issues at most one chat completion.
\<close>

theorem generate_content_wraps_every_failure:
  assumes "client_ok s"
  shows "(fst (get_client x s) = Inl e \<longrightarrow>
            fst (generate_content x p cs s) =
              Inl (PyExn ''Exception'' (''Content generation failed: '' @ exn_str e) (Some e)))
       \<and> (fst (generate_content x p cs s) = Inl w \<longrightarrow>
            (\<exists>cause. w = PyExn ''Exception''
                           (''Content generation failed: '' @ exn_str cause) (Some cause)))
       \<and> completions (calls (snd (generate_content x p cs s))) \<le> completions (calls s) + 1"
  using generate_content_body_config_error [OF assms, of x e p cs]
        generate_content_wraps [of x p cs s e]
        generate_content_failure_is_wrapped [of x p cs s w]
        generate_content_history(4) [of x p cs s]
  by blast

theorem generate_content_wraps_every_failure_witness:
  "fst (generate_content (world no_deployment_env unreachable_store)
          ''Strategy & Resource Mobilization'' None (init no_deployment_env)) =
     Inl (PyExn ''Exception''
           (''Content generation failed: '' @ missing_config_message [''deployment''])
           (Some (PyExn ''ValueError'' (missing_config_message [''deployment'']) None)))
   \<and> completions (calls (snd (generate_content (world no_deployment_env unreachable_store)
          ''Strategy & Resource Mobilization'' None (init no_deployment_env)))) \<le> 1"
  using generate_content_wraps_every_failure
          [OF client_ok_init, of "world no_deployment_env unreachable_store" no_deployment_env
             "ValueError (missing_config_message [''deployment''])"
             "''Strategy & Resource Mobilization''" None]
        get_client_without_deployment
  by (simp add: ValueError_def init_def completions_def)

text \<open>
  Claim C2 as stated fails: with the deployment missing, \<^verbatim>\<open>_get_client\<close> raises the
  \<^verbatim>\<open>ValueError\<close>, and what reaches the caller of \<^verbatim>\<open>generate_content\<close> is a different
  exception, of class \<^verbatim>\<open>Exception\<close>, that wraps it.
\<close>

theorem configuration_error_counterexample:
  "fst (get_client (world no_deployment_env unreachable_store) (init no_deployment_env))
     = Inl (PyExn ''ValueError'' (missing_config_message [''deployment'']) None)
   \<and> fst (generate_content (world no_deployment_env unreachable_store)
            ''Strategy & Resource Mobilization'' None (init no_deployment_env))
       = Inl (PyExn ''Exception''
               (''Content generation failed: '' @ missing_config_message [''deployment''])
               (Some (PyExn ''ValueError'' (missing_config_message [''deployment'']) None)))
   \<and> fst (generate_content (world no_deployment_env unreachable_store)
            ''Strategy & Resource Mobilization'' None (init no_deployment_env))
       \<noteq> Inl (PyExn ''ValueError'' (missing_config_message [''deployment'']) None)"
proof -
  let ?x = "world no_deployment_env unreachable_store"
  let ?s = "init no_deployment_env"
  let ?e = "PyExn ''ValueError'' (missing_config_message [''deployment'']) None"
  have g: "fst (get_client ?x ?s) = Inl ?e"
    using get_client_without_deployment by (simp add: ValueError_def)
  from generate_content_body_config_error [OF client_ok_init g]
  have "fst (generate_content_body ?x ''Strategy & Resource Mobilization'' None ?s) = Inl ?e" .
  from generate_content_wraps [OF this] g show ?thesis
    by simp
qed

section \<open>A successful generation\<close>

text \<open>
  What lines 293 to 321 return once the chat API has answered with a first completion
  that has text, and the workspace content when there are no context sections.
\<close>

lemma request_completion_result:
  assumes "chat_create x client (build_request c sp user_message) = Inr (Some text # others)"
  shows "request_completion x client c workspace_content sp user_message s =
           (Inr \<lparr> content = strip text,
                  context_tokens = count_tokens x workspace_content default_model,
                  response_tokens = count_tokens x (strip text) default_model,
                  full_context = sp @ ''\<newline>'' @ user_message \<rparr>,
            s\<lparr>calls := calls s @ [ChatCompletion]\<rparr>)"
  using assms by (simp add: request_completion_def Let_def)

lemma build_workspace_content_empty:
  "build_workspace_content None = []" "build_workspace_content (Some []) = []"
  by (simp_all add: build_workspace_content_def)

lemma generate_content_never_returns:
  "\<exists>w. fst (generate_content x p cs s) = Inl w"
  using generate_content_body_never_returns [of x p cs s]
  by (auto dest: generate_content_wraps)

lemma generate_content_never_requests_a_completion:
  "completions (calls (snd (generate_content x p cs s))) = completions (calls s)"
proof -
  obtain c s1 where l: "load_config_from_vault x s = (Inr c, s1)"
    using load_config_total [of x s] by blast
  obtain r s2 where g: "get_client x s1 = (r, s2)"
    by (cases "get_client x s1")
  from l g have "snd (generate_content_body x p cs s) = s2"
    by (cases r) (simp_all add: generate_content_body_def system_prompt_raises)
  moreover from l have "self_config s1 \<noteq> None"
    using load_config_sessions(4) [of x s] by simp
  then have "calls s2 = calls s1"
    using get_client_calls(1) [of s1 x] g by simp
  moreover from l have "completions (calls s1) = completions (calls s)"
    using load_config_sessions(3) [of x s] by simp
  ultimately show ?thesis
    by (simp add: generate_content_state)
qed

text \<open>
  Claim C6 does not hold of the code. In the scenario of the specification (the
  three variables set, the chat API answering \<^verbatim>\<open>X\<close>, no context sections) the
  connection is obtained, but \<^verbatim>\<open>generate_content\<close> returns no result: evaluating the
  system prompt raises \<^verbatim>\<open>ValueError\<close> for the format spec of its first innermost
  field, the chat API is never called, and the caller receives that failure wrapped
  by the handler.
\<close>

theorem generate_content_fails_on_the_system_prompt:
  "fst (get_client (world scenario_env unreachable_store) (init scenario_env))
     = Inr \<lparr> azure_endpoint = Some ''https://x'', conn_api_key = Some ''k'',
             api_version = Some ''2024-02-01'' \<rparr>
   \<and> fst (generate_content (world scenario_env unreachable_store)
            ''Strategy & Resource Mobilization'' None (init scenario_env))
       = Inl (PyExn ''Exception''
               (''Content generation failed: Invalid format specifier '' @
                quote subprocess_format_spec @ '' for object of type '' @ quote ''str'')
               (Some (PyExn ''ValueError''
                       (''Invalid format specifier '' @ quote subprocess_format_spec @
                        '' for object of type '' @ quote ''str'')
                       None)))
   \<and> completions (calls (snd (generate_content (world scenario_env unreachable_store)
            ''Strategy & Resource Mobilization'' None (init scenario_env)))) = 0"
  by (simp add: generate_content_def generate_content_body_def system_prompt_raises
                get_client_def load_config_from_vault_def Let_def init_def world_def
                scenario_env_def unreachable_store_def py_or_def default_key_vault_url_def
                env_config_def env_get_default_def required_keys_def config_get_def
                AzureOpenAI_def ValueError_def completions_def)

end
